theory Spec2Isabelle
  imports Main
begin

section \<open>JavaScript values and built-ins used by the loader\<close>

text \<open>
  The loader of the Silabs ZCL files works on the object tree that the XML parser
  produces: every element is an object whose attributes sit under the key
  \<^verbatim>\<open>$\<close> (the key is absent when the element has no attribute), whose text sits under
  \<^verbatim>\<open>_\<close>, and whose child elements are arrays under the child's tag name. Attribute
  values are strings. A property that is absent reads as \<^verbatim>\<open>undefined\<close>; here that is
  \<open>None\<close>, and \<^verbatim>\<open>x == null\<close> is \<open>x = None\<close>. Reading a property of
  \<^verbatim>\<open>undefined\<close> throws a \<^verbatim>\<open>TypeError\<close>, which is a value of the model.
\<close>

datatype js_error = TypeError | Thrown string | Rejected string

datatype jsval = JUndefined | JNull | JNaN | JNum int | JStr string

definition bindE :: "js_error + 'a \<Rightarrow> ('a \<Rightarrow> js_error + 'b) \<Rightarrow> js_error + 'b" where
  "bindE m f = (case m of Inl e \<Rightarrow> Inl e | Inr x \<Rightarrow> f x)"

text \<open>\<^verbatim>\<open>x.$\<close> followed by a property read: a \<^verbatim>\<open>TypeError\<close> when \<^verbatim>\<open>$\<close> is absent.\<close>

definition dollar :: "'a option \<Rightarrow> js_error + 'a" where
  "dollar a = (case a of None \<Rightarrow> Inl TypeError | Some x \<Rightarrow> Inr x)"

text \<open>\<^verbatim>\<open>x.child[0]\<close>: a \<^verbatim>\<open>TypeError\<close> when the child array is absent,
  \<^verbatim>\<open>undefined\<close> when it is empty.\<close>

definition first_of :: "'a list option \<Rightarrow> js_error + 'a option" where
  "first_of c = (case c of None \<Rightarrow> Inl TypeError
                 | Some [] \<Rightarrow> Inr None
                 | Some (x # _) \<Rightarrow> Inr (Some x))"

text \<open>White space is the ASCII white space; the source's \<^verbatim>\<open>trim\<close> and
  \<^verbatim>\<open>parseInt\<close> also skip the other white space of Unicode.\<close>

definition js_isSpace :: "char \<Rightarrow> bool" where
  "js_isSpace c = ((of_char c :: nat) \<in> {9, 10, 11, 12, 13, 32})"

definition js_trim :: "string \<Rightarrow> string" where
  "js_trim s = rev (dropWhile js_isSpace (rev (dropWhile js_isSpace s)))"

definition js_toLowerCase :: "string \<Rightarrow> string" where
  "js_toLowerCase s =
     map (\<lambda>c. let n = (of_char c :: nat) in
               if 65 \<le> n \<and> n \<le> 90 then char_of (n + 32) else c) s"

text \<open>The value of a character as a digit; 36 for a character that is no digit in any
  radix.\<close>

definition digitVal :: "char \<Rightarrow> nat" where
  "digitVal c =
     (let n = (of_char c :: nat) in
      if 48 \<le> n \<and> n \<le> 57 then n - 48
      else if 97 \<le> n \<and> n \<le> 122 then n - 87
      else if 65 \<le> n \<and> n \<le> 90 then n - 55
      else 36)"

definition hasHexPrefix :: "string \<Rightarrow> bool" where
  "hasHexPrefix s = (take 2 s = ''0x'' \<or> take 2 s = ''0X'')"

text \<open>
  \<^verbatim>\<open>parseInt(string, radix)\<close> of ECMAScript: leading white space is skipped, a sign
  is read, the prefix \<^verbatim>\<open>0x\<close> selects radix 16 when the radix is absent or 16, the
  longest prefix of digits of the radix is the value, and there is no value
  (\<^verbatim>\<open>NaN\<close>) when that prefix is empty. \<^verbatim>\<open>undefined\<close> is first converted to
  the string \<^verbatim>\<open>undefined\<close>. Numbers are exact integers here (the source's doubles are
  exact below \<open>2 ^ 53\<close>); white space is the ASCII white space.
\<close>

definition js_parseInt :: "string option \<Rightarrow> nat option \<Rightarrow> jsval" where
  "js_parseInt input radix =
     (let s0 = (case input of None \<Rightarrow> ''undefined'' | Some s \<Rightarrow> s);
          s1 = dropWhile js_isSpace s0;
          neg = (take 1 s1 = ''-'');
          s2 = (if take 1 s1 = ''-'' \<or> take 1 s1 = ''+'' then drop 1 s1 else s1);
          r0 = (case radix of None \<Rightarrow> 0 | Some r \<Rightarrow> r);
          strip = (r0 = 0 \<or> r0 = 16) \<and> hasHexPrefix s2;
          r = (if strip then 16 else if r0 = 0 then 10 else r0);
          s3 = (if strip then drop 2 s2 else s2);
          z = takeWhile (\<lambda>c. digitVal c < r) s3
      in if r0 \<noteq> 0 \<and> (r0 < 2 \<or> 36 < r0) then JNaN
         else if z = [] then JNaN
         else JNum ((if neg then - 1 else 1) *
                    foldl (\<lambda>a c. a * int r + int (digitVal c)) 0 z))"

text \<open>\<^verbatim>\<open>x == 'true'\<close> on an attribute.\<close>

definition isTrue :: "string option \<Rightarrow> bool" where
  "isTrue a = (a = Some ''true'')"

text \<open>\<^verbatim>\<open>x ? x : null\<close> on an attribute: the empty string is falsy.\<close>

definition orNull :: "string option \<Rightarrow> string option" where
  "orNull a = (case a of None \<Rightarrow> None | Some s \<Rightarrow> if s = [] then None else Some s)"

section \<open>Loops that push rows\<close>

text \<open>
  \<^verbatim>\<open>xs.forEach((x, index) => { ... acc.push(row) ... })\<close>: the callback is run on every
  element in order, with its index, and pushes zero or more rows on one accumulator; here
  the callback returns the rows it pushes. An exception thrown by a callback ends the loop
  and is the result.
\<close>

fun forEachE :: "nat \<Rightarrow> 'a list \<Rightarrow> (nat \<Rightarrow> 'a \<Rightarrow> js_error + 'b list) \<Rightarrow> js_error + 'b list" where
  "forEachE i [] f = Inr []"
| "forEachE i (x # xs) f =
     bindE (f i x) (\<lambda>rows.
     bindE (forEachE (Suc i) xs f) (\<lambda>rest. Inr (rows @ rest)))"

text \<open>\<^verbatim>\<open>if ('child' in x) { ret.child = []; x.child.forEach(...) }\<close>: the property stays
  unset when the child is absent.\<close>

definition whenPresent ::
  "'a list option \<Rightarrow> (nat \<Rightarrow> 'a \<Rightarrow> js_error + 'b list) \<Rightarrow> js_error + 'b list option" where
  "whenPresent child f =
     (case child of None \<Rightarrow> Inr None
      | Some xs \<Rightarrow> bindE (forEachE 0 xs f) (\<lambda>rows. Inr (Some rows)))"

section \<open>Structs, enums and bitmaps\<close>

record struct_item_attrs =
  sia_name :: "string option"
  sia_type :: "string option"
  sia_entryType :: "string option"
  sia_length :: "string option"
  sia_writable :: "string option"

record struct_attrs =
  sa_name :: "string option"

record xml_struct =
  st_attrs :: "struct_attrs option"
  st_item :: "struct_item_attrs option list option"

record struct_item =
  si_name :: "string option"
  si_type :: "string option"
  si_ordinal :: nat
  si_entryType :: "string option"
  si_minLength :: nat
  si_maxLength :: "string option"
  si_isWritable :: bool

record prepared_struct =
  ps_name :: "string option"
  ps_items :: "struct_item list option"

text \<open>The callback of \<^verbatim>\<open>struct.item.forEach((item, index) => ...)\<close>.\<close>

definition structItemRow :: "nat \<Rightarrow> struct_item_attrs \<Rightarrow> struct_item" where
  "structItemRow index a =
     \<lparr> si_name = sia_name a, si_type = sia_type a, si_ordinal = index,
       si_entryType = sia_entryType a, si_minLength = 0,
       si_maxLength = orNull (sia_length a),
       si_isWritable = isTrue (sia_writable a) \<rparr>"

definition structItem :: "nat \<Rightarrow> struct_item_attrs option \<Rightarrow> js_error + struct_item list" where
  "structItem index item = bindE (dollar item) (\<lambda>a. Inr [structItemRow index a])"

definition prepareStruct :: "xml_struct \<Rightarrow> js_error + prepared_struct" where
  "prepareStruct struct =
     bindE (dollar (st_attrs struct)) (\<lambda>a.
     bindE (whenPresent (st_item struct) structItem) (\<lambda>its.
       Inr \<lparr> ps_name = sa_name a, ps_items = its \<rparr>))"

record enum_item_attrs =
  eia_name :: "string option"
  eia_value :: "string option"

record enum_attrs =
  ea_name :: "string option"
  ea_type :: "string option"

record xml_enum =
  en_attrs :: "enum_attrs option"
  en_item :: "enum_item_attrs option list option"

record enum_item =
  ei_name :: "string option"
  ei_value :: jsval
  ei_ordinal :: nat

record prepared_enum =
  pe_name :: "string option"
  pe_type :: "string option"
  pe_items :: "enum_item list option"

definition enumItemRow :: "nat \<Rightarrow> enum_item_attrs \<Rightarrow> enum_item" where
  "enumItemRow index a =
     \<lparr> ei_name = eia_name a, ei_value = js_parseInt (eia_value a) None,
       ei_ordinal = index \<rparr>"

definition enumItem :: "nat \<Rightarrow> enum_item_attrs option \<Rightarrow> js_error + enum_item list" where
  "enumItem index item = bindE (dollar item) (\<lambda>a. Inr [enumItemRow index a])"

definition prepareEnum :: "xml_enum \<Rightarrow> js_error + prepared_enum" where
  "prepareEnum en =
     bindE (dollar (en_attrs en)) (\<lambda>a.
     bindE (whenPresent (en_item en) enumItem) (\<lambda>its.
       Inr \<lparr> pe_name = ea_name a, pe_type = ea_type a, pe_items = its \<rparr>))"

record field_attrs =
  fa_name :: "string option"
  fa_mask :: "string option"

record bitmap_attrs =
  ba_name :: "string option"
  ba_type :: "string option"

record xml_bitmap =
  bm_attrs :: "bitmap_attrs option"
  bm_field :: "field_attrs option list option"

record bitmap_field =
  bf_name :: "string option"
  bf_mask :: jsval
  bf_type :: string
  bf_ordinal :: nat

record prepared_bitmap =
  pb_name :: "string option"
  pb_type :: "string option"
  pb_fields :: "bitmap_field list option"

text \<open>
  \<^verbatim>\<open>maskToType\<close>. The bit counter \<^verbatim>\<open>bin.bitCount\<close> lives in \<^verbatim>\<open>util/bin.js\<close>,
  which is not part of the sources at hand: it is the parameter \<open>bitCount\<close>.
\<close>

definition maskToType :: "(jsval \<Rightarrow> int) \<Rightarrow> string option \<Rightarrow> string" where
  "maskToType bitCount msk =
     (let n = js_parseInt msk None;
          bc = bitCount n
      in if bc \<le> 1 then ''bool''
         else if bc \<le> 8 then ''enum8''
         else if bc \<le> 16 then ''enum16''
         else ''enum32'')"

definition bitmapFieldRow :: "(jsval \<Rightarrow> int) \<Rightarrow> nat \<Rightarrow> field_attrs \<Rightarrow> bitmap_field" where
  "bitmapFieldRow bitCount index a =
     \<lparr> bf_name = fa_name a, bf_mask = js_parseInt (fa_mask a) None,
       bf_type = maskToType bitCount (fa_mask a), bf_ordinal = index \<rparr>"

definition bitmapField ::
  "(jsval \<Rightarrow> int) \<Rightarrow> nat \<Rightarrow> field_attrs option \<Rightarrow> js_error + bitmap_field list" where
  "bitmapField bitCount index fld =
     bindE (dollar fld) (\<lambda>a. Inr [bitmapFieldRow bitCount index a])"

definition prepareBitmap :: "(jsval \<Rightarrow> int) \<Rightarrow> xml_bitmap \<Rightarrow> js_error + prepared_bitmap" where
  "prepareBitmap bitCount bm =
     bindE (dollar (bm_attrs bm)) (\<lambda>a.
     bindE (whenPresent (bm_field bm) (bitmapField bitCount)) (\<lambda>fs.
       Inr \<lparr> pb_name = ba_name a, pb_type = ba_type a, pb_fields = fs \<rparr>))"

section \<open>Clusters\<close>

record arg_attrs =
  aa_name :: "string option"
  aa_type :: "string option"
  aa_array :: "string option"
  aa_presentIf :: "string option"
  aa_countArg :: "string option"
  aa_introducedIn :: "string option"
  aa_removedIn :: "string option"

record command_attrs =
  ca_code :: "string option"
  ca_manufacturerCode :: "string option"
  ca_name :: "string option"
  ca_source :: "string option"
  ca_optional :: "string option"
  ca_introducedIn :: "string option"
  ca_removedIn :: "string option"

record xml_command =
  cmd_attrs :: "command_attrs option"
  cmd_description :: "string list option"
  cmd_arg :: "arg_attrs option list option"

record attribute_attrs =
  ata_code :: "string option"
  ata_manufacturerCode :: "string option"
  ata_type :: "string option"
  ata_side :: "string option"
  ata_define :: "string option"
  ata_min :: "string option"
  ata_max :: "string option"
  ata_length :: "string option"
  ata_writable :: "string option"
  ata_default :: "string option"
  ata_optional :: "string option"
  ata_reportable :: "string option"
  ata_sceneRequired :: "string option"
  ata_introducedIn :: "string option"
  ata_removedIn :: "string option"
  ata_entryType :: "string option"

record xml_attribute =
  att_attrs :: "attribute_attrs option"
  att_text :: "string option"

record global_attribute_attrs =
  gaa_code :: "string option"
  gaa_side :: "string option"
  gaa_value :: "string option"

record cluster_attrs =
  cla_code :: "string option"
  cla_manufacturerCode :: "string option"
  cla_singleton :: "string option"
  cla_introducedIn :: "string option"
  cla_removedIn :: "string option"

text \<open>A cluster, cluster extension or global element. The children \<^verbatim>\<open>code\<close>,
  \<^verbatim>\<open>name\<close>, \<^verbatim>\<open>description\<close>, \<^verbatim>\<open>define\<close> and \<^verbatim>\<open>domain\<close> hold text only, so the
  parser gives them as strings.\<close>

record xml_cluster =
  cl_attrs :: "cluster_attrs option"
  cl_code :: "string list option"
  cl_name :: "string list option"
  cl_description :: "string list option"
  cl_define :: "string list option"
  cl_domain :: "string list option"
  cl_command :: "xml_command list option"
  cl_attribute :: "xml_attribute list option"
  cl_globalAttribute :: "global_attribute_attrs option list option"

record prepared_arg =
  pa_name :: "string option"
  pa_type :: "string option"
  pa_isArray :: nat
  pa_presentIf :: "string option"
  pa_countArg :: "string option"
  pa_ordinal :: nat
  pa_introducedIn :: "string option"
  pa_removedIn :: "string option"

record prepared_command =
  pc_code :: jsval
  pc_manufacturerCode :: jsval
  pc_name :: "string option"
  pc_description :: string
  pc_source :: "string option"
  pc_isOptional :: bool
  pc_introducedIn :: "string option"
  pc_removedIn :: "string option"
  pc_args :: "prepared_arg list option"

record prepared_attribute =
  pat_code :: jsval
  pat_manufacturerCode :: jsval
  pat_name :: "string option"
  pat_type :: string
  pat_side :: "string option"
  pat_define :: "string option"
  pat_min :: "string option"
  pat_max :: "string option"
  pat_minLength :: nat
  pat_maxLength :: "string option"
  pat_isWritable :: bool
  pat_defaultValue :: "string option"
  pat_isOptional :: bool
  pat_isReportable :: bool
  pat_isSceneRequired :: bool
  pat_introducedIn :: "string option"
  pat_removedIn :: "string option"
  pat_entryType :: "string option"

text \<open>The prepared cluster. A property the source never sets is \<open>None\<close>, or
  \<open>JUndefined\<close> for the two numbers.\<close>

record prepared_cluster =
  pcl_isExtension :: bool
  pcl_code :: jsval
  pcl_name :: "string option"
  pcl_description :: "string option"
  pcl_define :: "string option"
  pcl_domain :: "string option"
  pcl_isSingleton :: "bool option"
  pcl_manufacturerCode :: jsval
  pcl_introducedIn :: "string option"
  pcl_removedIn :: "string option"
  pcl_commands :: "prepared_command list option"
  pcl_attributes :: "prepared_attribute list option"

text \<open>\<^verbatim>\<open>s.trim()\<close> on what may be \<^verbatim>\<open>undefined\<close>.\<close>

definition trimE :: "string option \<Rightarrow> js_error + string" where
  "trimE s = (case s of None \<Rightarrow> Inl TypeError | Some t \<Rightarrow> Inr (js_trim t))"

definition toLowerCaseE :: "string option \<Rightarrow> js_error + string" where
  "toLowerCaseE s = (case s of None \<Rightarrow> Inl TypeError | Some t \<Rightarrow> Inr (js_toLowerCase t))"

text \<open>The first part of \<^verbatim>\<open>prepareCluster\<close>, up to the commands: the cluster's own
  properties.\<close>

definition clusterHeader :: "xml_cluster \<Rightarrow> bool \<Rightarrow> js_error + prepared_cluster" where
  "clusterHeader cluster isExtension =
     (let unset = \<lparr> pcl_isExtension = isExtension, pcl_code = JUndefined, pcl_name = None,
                     pcl_description = None, pcl_define = None, pcl_domain = None,
                     pcl_isSingleton = None, pcl_manufacturerCode = JUndefined,
                     pcl_introducedIn = None, pcl_removedIn = None,
                     pcl_commands = None, pcl_attributes = None \<rparr>
      in if isExtension then
           (case cl_attrs cluster of
              None \<Rightarrow> Inr unset
            | Some a \<Rightarrow>
                (case cla_code a of
                   None \<Rightarrow> Inr unset
                 | Some c \<Rightarrow> Inr (unset\<lparr> pcl_code := js_parseInt (Some c) None \<rparr>)))
         else
           bindE (first_of (cl_code cluster)) (\<lambda>code.
           bindE (first_of (cl_name cluster)) (\<lambda>name.
           bindE (first_of (cl_description cluster)) (\<lambda>d.
           bindE (trimE d) (\<lambda>description.
           bindE (first_of (cl_define cluster)) (\<lambda>define.
           bindE (first_of (cl_domain cluster)) (\<lambda>domain.
             let ret = unset\<lparr> pcl_code := js_parseInt code None, pcl_name := name,
                              pcl_description := Some description, pcl_define := define,
                              pcl_domain := domain, pcl_isSingleton := Some False \<rparr>
             in case cl_attrs cluster of
                  None \<Rightarrow> Inr ret
                | Some a \<Rightarrow>
                    Inr (ret\<lparr> pcl_manufacturerCode :=
                                 (case cla_manufacturerCode a of
                                    None \<Rightarrow> JNull
                                  | Some m \<Rightarrow> js_parseInt (Some m) None),
                               pcl_isSingleton :=
                                 Some (if cla_singleton a = Some ''true'' then True else False),
                               pcl_introducedIn := cla_introducedIn a,
                               pcl_removedIn := cla_removedIn a \<rparr>))))))))"

text \<open>
  \<^verbatim>\<open>if (x.manufacturerCode == null) x.manufacturerCode = ret.manufacturerCode
  else x.manufacturerCode = parseInt(x.manufacturerCode)\<close>, for a command and for an
  attribute: \<open>own\<close> is the element's attribute, \<open>inherited\<close> the value the prepared
  cluster holds.\<close>

definition manufacturerCodeOf :: "jsval \<Rightarrow> string option \<Rightarrow> jsval" where
  "manufacturerCodeOf inherited own =
     (case own of None \<Rightarrow> inherited | Some m \<Rightarrow> js_parseInt (Some m) None)"

text \<open>The callback of \<^verbatim>\<open>command.arg.forEach((arg, index) => ...)\<close>: only an argument
  without \<^verbatim>\<open>removedIn\<close> is pushed.\<close>

definition argRow :: "nat \<Rightarrow> arg_attrs \<Rightarrow> prepared_arg" where
  "argRow index a =
     \<lparr> pa_name = aa_name a, pa_type = aa_type a,
       pa_isArray = (if aa_array a = Some ''true'' then 1 else 0),
       pa_presentIf = aa_presentIf a, pa_countArg = aa_countArg a,
       pa_ordinal = index, pa_introducedIn = aa_introducedIn a,
       pa_removedIn = aa_removedIn a \<rparr>"

definition prepareArg :: "nat \<Rightarrow> arg_attrs option \<Rightarrow> js_error + prepared_arg list" where
  "prepareArg index arg =
     bindE (dollar arg) (\<lambda>a.
       if aa_removedIn a = None then Inr [argRow index a] else Inr [])"

text \<open>The callback of \<^verbatim>\<open>cluster.command.forEach((command) => ...)\<close>.\<close>

definition commandRow ::
  "jsval \<Rightarrow> command_attrs \<Rightarrow> string \<Rightarrow> prepared_arg list option \<Rightarrow> prepared_command" where
  "commandRow retMfg a description args =
     \<lparr> pc_code = js_parseInt (ca_code a) None,
       pc_manufacturerCode = manufacturerCodeOf retMfg (ca_manufacturerCode a),
       pc_name = ca_name a, pc_description = description,
       pc_source = ca_source a, pc_isOptional = isTrue (ca_optional a),
       pc_introducedIn = ca_introducedIn a, pc_removedIn = ca_removedIn a,
       pc_args = args \<rparr>"

definition prepareCommand :: "jsval \<Rightarrow> nat \<Rightarrow> xml_command \<Rightarrow> js_error + prepared_command list" where
  "prepareCommand retMfg index command =
     bindE (dollar (cmd_attrs command)) (\<lambda>a.
     bindE (first_of (cmd_description command)) (\<lambda>d.
     bindE (trimE d) (\<lambda>description.
     bindE (whenPresent (cmd_arg command) prepareArg) (\<lambda>args.
       Inr [commandRow retMfg a description args]))))"

text \<open>The callback of \<^verbatim>\<open>cluster.attribute.forEach((attribute) => ...)\<close>: only an
  attribute without \<^verbatim>\<open>removedIn\<close> is pushed.\<close>

definition attributeRow :: "jsval \<Rightarrow> string option \<Rightarrow> string \<Rightarrow> attribute_attrs \<Rightarrow> prepared_attribute" where
  "attributeRow retMfg txt ty a =
     \<lparr> pat_code = js_parseInt (ata_code a) None,
       pat_manufacturerCode = manufacturerCodeOf retMfg (ata_manufacturerCode a),
       pat_name = txt, pat_type = ty, pat_side = ata_side a, pat_define = ata_define a,
       pat_min = ata_min a, pat_max = ata_max a, pat_minLength = 0,
       pat_maxLength = orNull (ata_length a), pat_isWritable = isTrue (ata_writable a),
       pat_defaultValue = ata_default a, pat_isOptional = isTrue (ata_optional a),
       pat_isReportable = isTrue (ata_reportable a),
       pat_isSceneRequired = isTrue (ata_sceneRequired a),
       pat_introducedIn = ata_introducedIn a, pat_removedIn = ata_removedIn a,
       pat_entryType = ata_entryType a \<rparr>"

definition prepareAttribute ::
  "jsval \<Rightarrow> nat \<Rightarrow> xml_attribute \<Rightarrow> js_error + prepared_attribute list" where
  "prepareAttribute retMfg index attribute =
     bindE (dollar (att_attrs attribute)) (\<lambda>a.
     bindE (toLowerCaseE (ata_type a)) (\<lambda>ty.
       if ata_removedIn a = None
       then Inr [attributeRow retMfg (att_text attribute) ty a]
       else Inr []))"

definition prepareCluster :: "xml_cluster \<Rightarrow> bool \<Rightarrow> js_error + prepared_cluster" where
  "prepareCluster cluster isExtension =
     bindE (clusterHeader cluster isExtension) (\<lambda>ret.
     bindE (whenPresent (cl_command cluster)
              (prepareCommand (pcl_manufacturerCode ret))) (\<lambda>commands.
     bindE (whenPresent (cl_attribute cluster)
              (prepareAttribute (pcl_manufacturerCode ret))) (\<lambda>attributes.
       Inr (ret\<lparr> pcl_commands := commands, pcl_attributes := attributes \<rparr>))))"

subsection \<open>Global attributes of a cluster\<close>

text \<open>Modelled from the spec: the constants \<^verbatim>\<open>dbEnum.side\<close> of
  \<^verbatim>\<open>src-shared/db-enum.js\<close>, which is not part of the sources at hand; the spec names
  the sides \<^verbatim>\<open>either\<close>, \<^verbatim>\<open>client\<close> and \<^verbatim>\<open>server\<close>.\<close>

definition side_either :: string where "side_either = ''either''"
definition side_client :: string where "side_client = ''client''"
definition side_server :: string where "side_server = ''server''"

record global_attribute_row =
  gar_code :: jsval
  gar_side :: "string option"
  gar_value :: "string option"

record prepared_global_attribute =
  pga_code :: jsval
  pga_manufacturerCode :: "string option"
  pga_globalAttribute :: "global_attribute_row list"

text \<open>The callback of \<^verbatim>\<open>cluster.globalAttribute.forEach((ga) => ...)\<close>.\<close>

definition globalAttributeRow ::
  "string option \<Rightarrow> global_attribute_attrs \<Rightarrow> global_attribute_row" where
  "globalAttributeRow side a =
     \<lparr> gar_code = js_parseInt (gaa_code a) None, gar_side = side,
       gar_value = gaa_value a \<rparr>"

definition globalAttributeRows ::
  "nat \<Rightarrow> global_attribute_attrs option \<Rightarrow> js_error + global_attribute_row list" where
  "globalAttributeRows index ga =
     bindE (dollar ga) (\<lambda>a.
       if gaa_side a = Some side_either then
         Inr [globalAttributeRow (Some side_client) a,
              globalAttributeRow (Some side_server) a]
       else
         Inr [globalAttributeRow (gaa_side a) a])"

text \<open>\<^verbatim>\<open>prepareClusterGlobalAttribute\<close>; the result \<open>None\<close> is the source's
  \<^verbatim>\<open>null\<close>, for a cluster without global attributes.\<close>

definition prepareClusterGlobalAttribute ::
  "xml_cluster \<Rightarrow> js_error + prepared_global_attribute option" where
  "prepareClusterGlobalAttribute cluster =
     (case cl_globalAttribute cluster of
        None \<Rightarrow> Inr None
      | Some gas \<Rightarrow>
          bindE (first_of (cl_code cluster)) (\<lambda>code.
          bindE (forEachE 0 gas globalAttributeRows) (\<lambda>rows.
            Inr (Some \<lparr> pga_code = js_parseInt code (Some 16),
                         pga_manufacturerCode =
                           (case cl_attrs cluster of
                              None \<Rightarrow> None
                            | Some a \<Rightarrow> cla_manufacturerCode a),
                         pga_globalAttribute = rows \<rparr>))))"

section \<open>Option defaults\<close>

text \<open>\<^verbatim>\<open>n.toString(radix)\<close> and the string conversion of a template literal, for the
  values a manifest can hold. All digits of a number are printed; the source prints a
  number from \<open>10 ^ 21\<close> on with an exponent.\<close>

function digitsOf :: "nat \<Rightarrow> nat \<Rightarrow> nat list" where
  "digitsOf r n = (if r < 2 \<or> n < r then [n] else digitsOf r (n div r) @ [n mod r])"
  by pat_completeness auto
termination
  by (relation "measure snd") auto

definition lowerDigit :: "nat \<Rightarrow> char" where
  "lowerDigit d = (if d < 10 then char_of (48 + d) else char_of (87 + d))"

definition numToString :: "nat \<Rightarrow> int \<Rightarrow> string" where
  "numToString r n =
     (if n < 0 then ''-'' else []) @ map lowerDigit (digitsOf r (nat \<bar>n\<bar>))"

definition js_toString :: "nat \<Rightarrow> jsval \<Rightarrow> string" where
  "js_toString r v =
     (case v of JUndefined \<Rightarrow> ''undefined'' | JNull \<Rightarrow> ''null'' | JNaN \<Rightarrow> ''NaN''
      | JNum n \<Rightarrow> numToString r n | JStr t \<Rightarrow> t)"

text \<open>\<^verbatim>\<open>_.isNumber\<close> of lodash.\<close>

definition isNumber :: "jsval \<Rightarrow> bool" where
  "isNumber v = (case v of JNum n \<Rightarrow> True | JNaN \<Rightarrow> True | _ \<Rightarrow> False)"

text \<open>
  The two queries of \<^verbatim>\<open>db/query-package.js\<close> that the defaults use; the file is not part
  of the sources at hand, so they are parameters. \<open>selectSpecificOptionValue\<close> takes the
  package, the category and the code and gives the option row, or \<^verbatim>\<open>undefined\<close>
  (\<open>None\<close>) when there is none; of the row only \<^verbatim>\<open>id\<close> is read.
\<close>

record option_row =
  or_id :: nat
  or_code :: string

record package_queries =
  selectSpecificOptionValue :: "nat \<Rightarrow> string \<Rightarrow> jsval \<Rightarrow> js_error + option_row option"
  insertDefaultOptionValue :: "nat \<Rightarrow> string \<Rightarrow> nat \<Rightarrow> js_error + unit"

text \<open>
  \<^verbatim>\<open>Promise.all\<close> over promises that have all been started: it resolves with all the
  values, or rejects with a rejection of one of them. In the source that is the rejection
  that happens first in time; the model takes the first one in the order of the list.
\<close>

fun promiseAll :: "(js_error + 'a) list \<Rightarrow> js_error + 'a list" where
  "promiseAll [] = Inr []"
| "promiseAll (Inl e # ps) = Inl e"
| "promiseAll (Inr x # ps) = bindE (promiseAll ps) (\<lambda>xs. Inr (x # xs))"

text \<open>The promise that \<^verbatim>\<open>parseTextDefaults\<close> pushes for one category: the exact lookup,
  the lookup of the hexadecimal form of a number, and the insertion of the default or the
  \<^verbatim>\<open>throw\<close>. It resolves with what \<^verbatim>\<open>insertDefaultOptionValue\<close> was called with.\<close>

definition textDefault ::
  "package_queries \<Rightarrow> nat \<Rightarrow> string \<times> jsval \<Rightarrow> js_error + string \<times> nat" where
  "textDefault q pkgRef entry =
     (let optionCategory = fst entry; txt = snd entry in
      bindE (selectSpecificOptionValue q pkgRef optionCategory txt) (\<lambda>specificValue.
      bindE (case specificValue of
               Some v \<Rightarrow> Inr (Some v)
             | None \<Rightarrow>
                 if isNumber txt
                 then selectSpecificOptionValue q pkgRef optionCategory
                        (JStr (''0x'' @ js_toString 16 txt))
                 else Inr None) (\<lambda>specificValue.
        case specificValue of
          None \<Rightarrow>
            Inl (Thrown (''Default value for: '' @ optionCategory @ ''/'' @
                         js_toString 10 txt @ '' does not match an option.''))
        | Some v \<Rightarrow>
            bindE (insertDefaultOptionValue q pkgRef optionCategory (or_id v)) (\<lambda>u.
              Inr (optionCategory, or_id v)))))"

text \<open>\<^verbatim>\<open>parseTextDefaults\<close>; the object \<^verbatim>\<open>textDefaults\<close> is the list of its keys with
  their values, in the order of \<^verbatim>\<open>Object.keys\<close>.\<close>

definition parseTextDefaults ::
  "package_queries \<Rightarrow> nat \<Rightarrow> (string \<times> jsval) list option \<Rightarrow> js_error + (string \<times> nat) list" where
  "parseTextDefaults q pkgRef textDefaults =
     (case textDefaults of
        None \<Rightarrow> Inr []
      | Some entries \<Rightarrow> promiseAll (map (textDefault q pkgRef) entries))"

text \<open>\<^verbatim>\<open>parseBoolDefaults\<close>; a value of the object is given by its truthiness.\<close>

definition boolDefault ::
  "package_queries \<Rightarrow> nat \<Rightarrow> string \<times> bool \<Rightarrow> js_error + string \<times> nat" where
  "boolDefault q pkgRef entry =
     (let optionCategory = fst entry in
      bindE (selectSpecificOptionValue q pkgRef optionCategory
               (JNum (if snd entry then 1 else 0))) (\<lambda>specificValue.
      bindE (dollar specificValue) (\<lambda>v.
      bindE (insertDefaultOptionValue q pkgRef optionCategory (or_id v)) (\<lambda>u.
        Inr (optionCategory, or_id v)))))"

definition parseBoolDefaults ::
  "package_queries \<Rightarrow> nat \<Rightarrow> (string \<times> bool) list option \<Rightarrow> js_error + (string \<times> nat) list" where
  "parseBoolDefaults q pkgRef booleanCategories =
     (case booleanCategories of
        None \<Rightarrow> Inr []
      | Some entries \<Rightarrow> promiseAll (map (boolDefault q pkgRef) entries))"

record manifest_defaults =
  md_text :: "(string \<times> jsval) list option"
  md_bool :: "(string \<times> bool) list option"

definition parseDefaults ::
  "package_queries \<Rightarrow> nat \<Rightarrow> manifest_defaults \<Rightarrow> js_error + (string \<times> nat) list list" where
  "parseDefaults q packageId defaults =
     promiseAll [parseTextDefaults q packageId (md_text defaults),
                 parseBoolDefaults q packageId (md_bool defaults)]"

section \<open>Formatting a value as bytes\<close>

text \<open>
  Modelled from the spec: the helper \<^verbatim>\<open>asBytes\<close> of \<^verbatim>\<open>generator/helper-c.js\<close> (the
  spec's \<^verbatim>\<open>bytesForValue\<close>), which is not part of the sources at hand; only its test is.
  The spec: for a recognized fixed-width type the result is exactly width comma-separated
  two-digit hex bytes, most significant byte first, zero-padded; for an unrecognized type it
  is the value's character codes in hex, comma-separated, followed by a padding byte. Which
  types are recognized, and their widths, is data of the loaded package: the parameter
  \<open>width\<close>.
\<close>

definition upperDigit :: "nat \<Rightarrow> char" where
  "upperDigit d = (if d < 10 then char_of (48 + d) else char_of (55 + d))"

definition hexByte :: "nat \<Rightarrow> string" where
  "hexByte b = ''0x'' @ [upperDigit (b div 16 mod 16), upperDigit (b mod 16)]"

fun commaSeparated :: "string list \<Rightarrow> string" where
  "commaSeparated [] = []"
| "commaSeparated [x] = x"
| "commaSeparated (x # y # ys) = x @ '', '' @ commaSeparated (y # ys)"

definition fixedWidthBytes :: "nat \<Rightarrow> int \<Rightarrow> nat list" where
  "fixedWidthBytes w n = map (\<lambda>k. nat (n div 256 ^ (w - 1 - k) mod 256)) [0 ..< w]"

definition charCodes :: "string option \<Rightarrow> nat list" where
  "charCodes v = (case v of None \<Rightarrow> [] | Some t \<Rightarrow> map of_char t) @ [0]"

definition bytesForValue :: "(string \<Rightarrow> nat option) \<Rightarrow> string option \<Rightarrow> string \<Rightarrow> string" where
  "bytesForValue width v ty =
     (case width ty of
        Some w \<Rightarrow>
          commaSeparated (map hexByte
            (fixedWidthBytes w (case js_parseInt v None of JNum n \<Rightarrow> n | _ \<Rightarrow> 0)))
      | None \<Rightarrow> commaSeparated (map hexByte (charCodes v)))"

section \<open>The phases of a load\<close>

text \<open>
  \<^verbatim>\<open>parseZclFiles\<close> starts \<^verbatim>\<open>parseSingleZclFile\<close> on every file at once. Each file is
  read, qualified and parsed, and then \<^verbatim>\<open>processParsedZclData\<close> fills three arrays: into
  \<^verbatim>\<open>promisesStep1\<close> and \<^verbatim>\<open>promisesStep2\<close> it pushes the promises of
  \<^verbatim>\<open>process...\<close> calls it makes on the spot, into \<^verbatim>\<open>promisesStep3\<close> functions that
  make such a call when they are called. It awaits the first array, then the second, and
  resolves with the third; \<^verbatim>\<open>parseZclFiles\<close> calls the functions of all files once every
  file's promise is resolved.

  The model is a transition system over what the event loop does in one go. An insertion is
  a call of a function of \<^verbatim>\<open>db/query-loader.js\<close>: it begins when it is called and is
  completed when its promise is resolved. The preparers are taken to return.
\<close>

datatype insertion =
  InsertAtomics | InsertBitmaps | InsertClusters | InsertSpecs | InsertDomains |
  InsertEnums | InsertStructs | InsertDeviceTypes | InsertGlobals |
  InsertGlobalAttributeDefault | InsertClusterExtensions

text \<open>The array that holds the insertion's promise, or the function that makes it.
  \<^verbatim>\<open>processDomains\<close> inserts the specs and then the domains.\<close>

fun phase :: "insertion \<Rightarrow> nat" where
  "phase InsertSpecs = 1"
| "phase InsertDomains = 1"
| "phase InsertGlobalAttributeDefault = 3"
| "phase InsertClusterExtensions = 3"
| "phase ins = 2"

text \<open>The keys of \<^verbatim>\<open>data.configurator\<close> of a parsed file; \<open>pf_globalAttribute\<close> says
  that some cluster of the file has global attributes, without which
  \<^verbatim>\<open>processClusterGlobalAttributes\<close> inserts nothing.\<close>

record parsed_file =
  pf_atomic :: bool
  pf_bitmap :: bool
  pf_cluster :: bool
  pf_domain :: bool
  pf_enum :: bool
  pf_struct :: bool
  pf_deviceType :: bool
  pf_global :: bool
  pf_clusterExtension :: bool
  pf_globalAttribute :: bool

definition present :: "bool \<Rightarrow> insertion \<Rightarrow> insertion list" where
  "present key ins = (if key then [ins] else [])"

text \<open>The insertions that \<^verbatim>\<open>processParsedZclData\<close> calls while it fills the arrays, in
  the order of its \<^verbatim>\<open>if\<close> statements.\<close>

definition immediate :: "parsed_file \<Rightarrow> insertion list" where
  "immediate f =
     present (pf_atomic f) InsertAtomics @ present (pf_bitmap f) InsertBitmaps @
     present (pf_cluster f) InsertClusters @ present (pf_domain f) InsertSpecs @
     present (pf_enum f) InsertEnums @ present (pf_struct f) InsertStructs @
     present (pf_deviceType f) InsertDeviceTypes @ present (pf_global f) InsertGlobals"

text \<open>The insertions that the functions of \<^verbatim>\<open>promisesStep3\<close> call, in the order of the
  array.\<close>

definition later :: "parsed_file \<Rightarrow> insertion list" where
  "later f =
     present (pf_cluster f \<and> pf_globalAttribute f) InsertGlobalAttributeDefault @
     present (pf_clusterExtension f) InsertClusterExtensions"

text \<open>
  Where \<^verbatim>\<open>parseSingleZclFile\<close> stands for a file: before \<^verbatim>\<open>processParsedZclData\<close>; at
  its \<^verbatim>\<open>await\<close> of the first array; at its \<^verbatim>\<open>await\<close> of the second; resolved with the
  functions of the third array (with none when the file gave no result); resolved with
  \<^verbatim>\<open>undefined\<close> by the \<^verbatim>\<open>catch\<close>, which reading, qualifying and parsing stand under; or
  rejected, because the promise of \<^verbatim>\<open>processParsedZclData\<close> is returned without
  \<^verbatim>\<open>await\<close> and so is not under the \<^verbatim>\<open>catch\<close>.
\<close>

datatype file_state =
  Reading | AwaitStep1 | AwaitStep2 | Resolved "insertion list" | Caught | RejectedFile

datatype event = Call nat insertion | Done nat insertion | Failed nat insertion

record load_state =
  ls_files :: "nat \<Rightarrow> file_state"
  ls_pending :: "(nat \<times> insertion) set"
  ls_rejected :: "(nat \<times> insertion) set"
  ls_later :: bool
  ls_trace :: "event list"

definition initial :: load_state where
  "initial =
     \<lparr> ls_files = (\<lambda>i. Reading), ls_pending = {}, ls_rejected = {}, ls_later = False,
       ls_trace = [] \<rparr>"

definition settled :: "file_state \<Rightarrow> bool" where
  "settled st = (case st of Resolved ls \<Rightarrow> True | Caught \<Rightarrow> True | _ \<Rightarrow> False)"

text \<open>\<^verbatim>\<open>laterPromises.map((promise) => promise())\<close> over the flattened results of the
  files: the functions are called in the order of the files, up to the first file that was
  resolved with \<^verbatim>\<open>undefined\<close>, where the call throws.\<close>

fun laterCalls :: "(nat \<Rightarrow> file_state) \<Rightarrow> nat list \<Rightarrow> (nat \<times> insertion) list" where
  "laterCalls files [] = []"
| "laterCalls files (i # is) =
     (case files i of
        Resolved ls \<Rightarrow> map (Pair i) ls @ laterCalls files is
      | _ \<Rightarrow> [])"

datatype action =
  Enter nat | Skip nat | ReadFails nat | Resolves nat insertion | Rejects nat insertion |
  Step1Settled nat | Step2Settled nat | CallLater

text \<open>
  One step, for the files \<open>fs\<close>; \<open>None\<close> when the step cannot happen in the state.
  \<^item> \<open>Enter i\<close>: file \<open>i\<close> is parsed and \<^verbatim>\<open>processParsedZclData\<close> runs up to its first
    \<^verbatim>\<open>await\<close>, calling the immediate insertions.
  \<^item> \<open>Skip i\<close>: the qualified file has no data, there is no \<^verbatim>\<open>result\<close>, and
    \<^verbatim>\<open>processParsedZclData\<close> returns the empty array.
  \<^item> \<open>ReadFails i\<close>: reading, qualifying or parsing throws and the \<^verbatim>\<open>catch\<close> logs it.
  \<^item> \<open>Resolves i ins\<close>, \<open>Rejects i ins\<close>: the promise of a called insertion is settled;
    after the specs \<^verbatim>\<open>processDomains\<close> goes on to insert the domains.
  \<^item> \<open>Step1Settled i\<close>, \<open>Step2Settled i\<close>: \<^verbatim>\<open>Promise.all\<close> of the array the file awaits is
    settled and \<^verbatim>\<open>processParsedZclData\<close> goes on, or is rejected.
  \<^item> \<open>CallLater\<close>: every file's promise is resolved and \<^verbatim>\<open>parseZclFiles\<close> calls the
    functions of the third arrays.
\<close>

fun step :: "parsed_file list \<Rightarrow> action \<Rightarrow> load_state \<Rightarrow> load_state option" where
  "step fs (Enter i) s =
     (if i < length fs \<and> ls_files s i = Reading
      then Some (s\<lparr> ls_files := (ls_files s)(i := AwaitStep1),
                    ls_pending := ls_pending s \<union> Pair i ` set (immediate (fs ! i)),
                    ls_trace := ls_trace s @ map (Call i) (immediate (fs ! i)) \<rparr>)
      else None)"
| "step fs (Skip i) s =
     (if i < length fs \<and> ls_files s i = Reading
      then Some (s\<lparr> ls_files := (ls_files s)(i := Resolved []) \<rparr>)
      else None)"
| "step fs (ReadFails i) s =
     (if i < length fs \<and> ls_files s i = Reading
      then Some (s\<lparr> ls_files := (ls_files s)(i := Caught) \<rparr>)
      else None)"
| "step fs (Resolves i ins) s =
     (if (i, ins) \<in> ls_pending s
      then if ins = InsertSpecs
           then Some (s\<lparr> ls_pending := insert (i, InsertDomains) (ls_pending s - {(i, ins)}),
                         ls_trace := ls_trace s @ [Done i ins, Call i InsertDomains] \<rparr>)
           else Some (s\<lparr> ls_pending := ls_pending s - {(i, ins)},
                         ls_trace := ls_trace s @ [Done i ins] \<rparr>)
      else None)"
| "step fs (Rejects i ins) s =
     (if (i, ins) \<in> ls_pending s
      then Some (s\<lparr> ls_pending := ls_pending s - {(i, ins)},
                    ls_rejected := insert (i, ins) (ls_rejected s),
                    ls_trace := ls_trace s @ [Failed i ins] \<rparr>)
      else None)"
| "step fs (Step1Settled i) s =
     (if i < length fs \<and> ls_files s i = AwaitStep1
      then if (i, InsertSpecs) \<in> ls_rejected s \<or> (i, InsertDomains) \<in> ls_rejected s
           then Some (s\<lparr> ls_files := (ls_files s)(i := RejectedFile) \<rparr>)
           else if (i, InsertSpecs) \<notin> ls_pending s \<and> (i, InsertDomains) \<notin> ls_pending s
           then Some (s\<lparr> ls_files := (ls_files s)(i := AwaitStep2) \<rparr>)
           else None
      else None)"
| "step fs (Step2Settled i) s =
     (if i < length fs \<and> ls_files s i = AwaitStep2
      then if \<exists>ins \<in> set (immediate (fs ! i)). phase ins = 2 \<and> (i, ins) \<in> ls_rejected s
           then Some (s\<lparr> ls_files := (ls_files s)(i := RejectedFile) \<rparr>)
           else if \<forall>ins \<in> set (immediate (fs ! i)). phase ins = 2 \<longrightarrow> (i, ins) \<notin> ls_pending s
           then Some (s\<lparr> ls_files := (ls_files s)(i := Resolved (later (fs ! i))) \<rparr>)
           else None
      else None)"
| "step fs CallLater s =
     (if \<not> ls_later s \<and> (\<forall>i < length fs. settled (ls_files s i))
      then Some (s\<lparr> ls_later := True,
                    ls_pending := ls_pending s \<union> set (laterCalls (ls_files s) [0 ..< length fs]),
                    ls_trace := ls_trace s @
                      map (\<lambda>c. Call (fst c) (snd c))
                        (laterCalls (ls_files s) [0 ..< length fs]) \<rparr>)
      else None)"

fun run :: "parsed_file list \<Rightarrow> action list \<Rightarrow> load_state \<Rightarrow> load_state option" where
  "run fs [] s = Some s"
| "run fs (a # as) s = (case step fs a s of None \<Rightarrow> None | Some s' \<Rightarrow> run fs as s')"

text \<open>
  In a trace, no insertion of phase \<open>hi\<close> begins before every insertion of phase \<open>lo\<close>
  has completed: where an insertion of phase \<open>hi\<close> is called, every insertion of phase
  \<open>lo\<close> that the trace calls at all, for any file, was called and completed before.
\<close>

definition phase_barrier :: "nat \<Rightarrow> nat \<Rightarrow> event list \<Rightarrow> bool" where
  "phase_barrier lo hi tr =
     (\<forall>k < length tr. \<forall>i ins. tr ! k = Call i ins \<and> phase ins = hi \<longrightarrow>
        (\<forall>j < length tr. \<forall>g ins'. tr ! j = Call g ins' \<and> phase ins' = lo \<longrightarrow>
           j < k \<and> Done g ins' \<in> set (take k tr)))"

text \<open>
  What holds in every state of a load: before the later functions are called no insertion
  of phase 3 has been called; after that every file's promise is resolved; an insertion
  of phase 1 or 2 that was called is pending, rejected or completed; a file with a pending
  or rejected insertion of phase 1 or 2 stands at one of its awaits or is rejected; a
  file at its second await has no phase 1 insertion left; a pending or rejected insertion
  of phase 2 is one of the file's immediate insertions; the functions a file is resolved
  with are of phase 3; and the trace keeps every call of phase 3 behind the completion of
  all calls of the earlier phases.
\<close>

definition inv_nolater :: "load_state \<Rightarrow> bool" where
  "inv_nolater s =
     (\<not> ls_later s \<longrightarrow> (\<forall>i ins. Call i ins \<in> set (ls_trace s) \<longrightarrow> phase ins \<noteq> 3))"

definition inv_settled :: "parsed_file list \<Rightarrow> load_state \<Rightarrow> bool" where
  "inv_settled fs s = (ls_later s \<longrightarrow> (\<forall>i < length fs. settled (ls_files s i)))"

definition inv_accounted :: "load_state \<Rightarrow> bool" where
  "inv_accounted s =
     (\<forall>i ins. Call i ins \<in> set (ls_trace s) \<longrightarrow> phase ins \<noteq> 3 \<longrightarrow>
        (i, ins) \<in> ls_pending s \<or> (i, ins) \<in> ls_rejected s \<or> Done i ins \<in> set (ls_trace s))"

definition inv_open :: "parsed_file list \<Rightarrow> load_state \<Rightarrow> bool" where
  "inv_open fs s =
     (\<forall>i ins. (i, ins) \<in> ls_pending s \<union> ls_rejected s \<longrightarrow> phase ins \<noteq> 3 \<longrightarrow>
        i < length fs \<and> ls_files s i \<in> {AwaitStep1, AwaitStep2, RejectedFile})"

definition inv_step1 :: "load_state \<Rightarrow> bool" where
  "inv_step1 s =
     (\<forall>i ins. ls_files s i = AwaitStep2 \<longrightarrow> phase ins = 1 \<longrightarrow>
        (i, ins) \<notin> ls_pending s \<union> ls_rejected s)"

definition inv_step2 :: "parsed_file list \<Rightarrow> load_state \<Rightarrow> bool" where
  "inv_step2 fs s =
     (\<forall>i ins. (i, ins) \<in> ls_pending s \<union> ls_rejected s \<longrightarrow> phase ins = 2 \<longrightarrow>
        ins \<in> set (immediate (fs ! i)))"

definition inv_resolved :: "load_state \<Rightarrow> bool" where
  "inv_resolved s =
     (\<forall>i ls ins. ls_files s i = Resolved ls \<longrightarrow> ins \<in> set ls \<longrightarrow> phase ins = 3)"

definition below3 :: "event list \<Rightarrow> bool" where
  "below3 tr =
     (\<forall>k < length tr. \<forall>i ins. tr ! k = Call i ins \<longrightarrow> phase ins = 3 \<longrightarrow>
        (\<forall>j < length tr. \<forall>g ins'. tr ! j = Call g ins' \<longrightarrow> phase ins' \<noteq> 3 \<longrightarrow>
           j < k \<and> Done g ins' \<in> set (take k tr)))"

definition load_inv :: "parsed_file list \<Rightarrow> load_state \<Rightarrow> bool" where
  "load_inv fs s =
     (inv_nolater s \<and> inv_settled fs s \<and> inv_accounted s \<and> inv_open fs s \<and>
      inv_step1 s \<and> inv_step2 fs s \<and> inv_resolved s \<and> below3 (ls_trace s))"

section \<open>Promises and the end of the process\<close>

text \<open>
  An \<^verbatim>\<open>async\<close> function runs up to its first \<^verbatim>\<open>await\<close> when it is called, and an
  exception in that part rejects its promise on the spot. A promise is therefore either
  settled at once, that is, before the event that called its function is through, its
  microtasks included, or settled later, by an event of the store or of the file system;
  and it is settled with an error, which rejects it, or without one.

  A promise that is rejected while nothing handles its rejection ends the process: once
  the microtasks of the current event are done, Node.js (from version 15 on, in its default
  mode \<^verbatim>\<open>--unhandled-rejections=throw\<close>, and with no listener for
  \<^verbatim>\<open>unhandledRejection\<close>, of which the loader installs none) raises the rejection as an
  uncaught exception. \<^verbatim>\<open>await p\<close> and \<^verbatim>\<open>Promise.all(ps)\<close> handle the promises they are
  given, from the moment they are evaluated. What is awaited thus has three outcomes: a
  value, an exception at the \<^verbatim>\<open>await\<close>, or the end of the process before the awaited
  promise is settled.
\<close>

datatype promise = SettledAtOnce "js_error option" | SettledLater "js_error option"

datatype 'a awaited = Fulfilled 'a | RejectedWith js_error | ProcessEnds js_error

definition atOnce :: "promise list \<Rightarrow> js_error list" where
  "atOnce ps =
     concat (map (\<lambda>p. case p of SettledAtOnce (Some e) \<Rightarrow> [e] | _ \<Rightarrow> []) ps)"

definition afterwards :: "promise list \<Rightarrow> js_error list" where
  "afterwards ps =
     concat (map (\<lambda>p. case p of SettledLater (Some e) \<Rightarrow> [e] | _ \<Rightarrow> []) ps)"

text \<open>The rejections of the promises of an array, the earliest first: those rejected at
  once in the order of the array, then those rejected later, for which the order of the
  array stands for the order in time.\<close>

definition rejections :: "promise list \<Rightarrow> js_error list" where
  "rejections ps = atOnce ps @ afterwards ps"

text \<open>The promises of an array that are settled later: \<^verbatim>\<open>Promise.all\<close> of the array is
  fulfilled at once when there is none and no promise of the array is rejected.\<close>

definition waiting :: "promise list \<Rightarrow> promise list" where
  "waiting ps = filter (\<lambda>p. case p of SettledLater r \<Rightarrow> True | _ \<Rightarrow> False) ps"

text \<open>\<^verbatim>\<open>data.map((x) => f(x))\<close> for an \<open>f\<close> that may throw.\<close>

fun mapE :: "('a \<Rightarrow> js_error + 'b) \<Rightarrow> 'a list \<Rightarrow> js_error + 'b list" where
  "mapE f [] = Inr []"
| "mapE f (x # xs) = bindE (f x) (\<lambda>y. bindE (mapE f xs) (\<lambda>ys. Inr (y # ys)))"

section \<open>Atomic types, domains and device types\<close>

record type_attrs =
  ty_name :: "string option"
  ty_id :: "string option"
  ty_size :: "string option"
  ty_description :: "string option"
  ty_discrete :: "string option"
  ty_signed :: "string option"
  ty_string :: "string option"
  ty_long :: "string option"
  ty_char :: "string option"

text \<open>An \<^verbatim>\<open>atomic\<close> element with its \<^verbatim>\<open>type\<close> children, each of which is its
  attributes.\<close>

record xml_atomic =
  xa_type :: "type_attrs option list option"

record prepared_atomic =
  atm_name :: "string option"
  atm_id :: jsval
  atm_size :: "string option"
  atm_description :: "string option"
  atm_isDiscrete :: bool
  atm_isSigned :: bool
  atm_isString :: bool
  atm_isLong :: bool
  atm_isChar :: bool

definition prepareAtomic :: "type_attrs option \<Rightarrow> js_error + prepared_atomic" where
  "prepareAtomic a =
     bindE (dollar a) (\<lambda>t.
       Inr \<lparr> atm_name = ty_name t, atm_id = js_parseInt (ty_id t) None,
             atm_size = ty_size t, atm_description = ty_description t,
             atm_isDiscrete = isTrue (ty_discrete t), atm_isSigned = isTrue (ty_signed t),
             atm_isString = isTrue (ty_string t), atm_isLong = isTrue (ty_long t),
             atm_isChar = isTrue (ty_char t) \<rparr>)"

text \<open>What a template literal prints for \<^verbatim>\<open>${x}\<close>.\<close>

definition printed :: "string option \<Rightarrow> string" where
  "printed x = (case x of None \<Rightarrow> ''undefined'' | Some s \<Rightarrow> s)"

record domain_attrs =
  da_name :: "string option"
  da_spec :: "string option"
  da_certifiable :: "string option"

text \<open>A \<^verbatim>\<open>domain\<close> element with its \<^verbatim>\<open>older\<close> children, each of which is its
  attributes.\<close>

record xml_domain =
  dom_attrs :: "domain_attrs option"
  dom_older :: "domain_attrs option list option"

record older_spec =
  os_specCode :: "string option"
  os_specDescription :: string
  os_specCertifiable :: bool

record prepared_domain =
  pd_name :: "string option"
  pd_specCode :: "string option"
  pd_specDescription :: string
  pd_specCertifiable :: bool
  pd_older :: "older_spec list option"

text \<open>The callback of \<^verbatim>\<open>domain.older.forEach((old) => ...)\<close>.\<close>

definition olderSpec :: "domain_attrs \<Rightarrow> nat \<Rightarrow> domain_attrs option \<Rightarrow> js_error + older_spec list" where
  "olderSpec d index old =
     bindE (dollar old) (\<lambda>a.
       Inr [\<lparr> os_specCode = da_spec a,
               os_specDescription =
                 ''Older '' @ printed (da_name d) @ '' spec '' @ printed (da_spec a),
               os_specCertifiable = isTrue (da_certifiable a) \<rparr>])"

definition prepareDomain :: "xml_domain \<Rightarrow> js_error + prepared_domain" where
  "prepareDomain domain =
     bindE (dollar (dom_attrs domain)) (\<lambda>a.
     bindE (whenPresent (dom_older domain) (olderSpec a)) (\<lambda>older.
       Inr \<lparr> pd_name = da_name a, pd_specCode = da_spec a,
             pd_specDescription =
               ''Latest '' @ printed (da_name a) @ '' spec: '' @ printed (da_spec a),
             pd_specCertifiable = isTrue (da_certifiable a), pd_older = older \<rparr>))"

record include_attrs =
  ia_client :: "string option"
  ia_server :: "string option"
  ia_clientLocked :: "string option"
  ia_serverLocked :: "string option"
  ia_cluster :: "string option"

text \<open>An \<^verbatim>\<open>include\<close> element: its attributes, its text, and its children
  \<^verbatim>\<open>requireAttribute\<close> and \<^verbatim>\<open>requireCommand\<close>, which hold text only.\<close>

record xml_include =
  inc_attrs :: "include_attrs option"
  inc_text :: "string option"
  inc_requireAttribute :: "string list option"
  inc_requireCommand :: "string list option"

record xml_clusters =
  cls_include :: "xml_include list option"

text \<open>A \<^verbatim>\<open>deviceType\<close> element. The children \<^verbatim>\<open>deviceId\<close> and \<^verbatim>\<open>profileId\<close>
  carry attributes, so each is an object, given here by its text; \<^verbatim>\<open>domain\<close>,
  \<^verbatim>\<open>name\<close> and \<^verbatim>\<open>typeName\<close> hold text only.\<close>

record xml_deviceType =
  dt_deviceId :: "string option list option"
  dt_profileId :: "string option list option"
  dt_domain :: "string list option"
  dt_name :: "string list option"
  dt_typeName :: "string list option"
  dt_clusters :: "xml_clusters list option"

record included_cluster =
  ic_client :: bool
  ic_server :: bool
  ic_clientLocked :: bool
  ic_serverLocked :: bool
  ic_clusterName :: "string option"
  ic_requiredAttributes :: "string list"
  ic_requiredCommands :: "string list"

record prepared_deviceType =
  pdt_code :: jsval
  pdt_profileId :: jsval
  pdt_domain :: "string option"
  pdt_name :: "string option"
  pdt_description :: "string option"
  pdt_clusters :: "included_cluster list option"

text \<open>\<^verbatim>\<open>x.child[0]['_']\<close>: a \<^verbatim>\<open>TypeError\<close> when the child array is absent or
  empty.\<close>

definition textOfFirst :: "string option list option \<Rightarrow> js_error + string option" where
  "textOfFirst c =
     bindE (first_of c) (\<lambda>x. case x of None \<Rightarrow> Inl TypeError | Some t \<Rightarrow> Inr t)"

text \<open>The callback of \<^verbatim>\<open>cluster.include.forEach((include) => ...)\<close>.\<close>

definition includedCluster :: "nat \<Rightarrow> xml_include \<Rightarrow> js_error + included_cluster list" where
  "includedCluster index inc =
     bindE (dollar (inc_attrs inc)) (\<lambda>a.
       Inr [\<lparr> ic_client = isTrue (ia_client a), ic_server = isTrue (ia_server a),
               ic_clientLocked = isTrue (ia_clientLocked a),
               ic_serverLocked = isTrue (ia_serverLocked a),
               ic_clusterName =
                 (case ia_cluster a of None \<Rightarrow> inc_text inc | Some c \<Rightarrow> Some c),
               ic_requiredAttributes =
                 (case inc_requireAttribute inc of None \<Rightarrow> [] | Some xs \<Rightarrow> xs),
               ic_requiredCommands =
                 (case inc_requireCommand inc of None \<Rightarrow> [] | Some xs \<Rightarrow> xs) \<rparr>])"

text \<open>The callback of \<^verbatim>\<open>deviceType.clusters.forEach((cluster) => ...)\<close>.\<close>

definition includedClusters :: "nat \<Rightarrow> xml_clusters \<Rightarrow> js_error + included_cluster list" where
  "includedClusters index cluster =
     (case cls_include cluster of
        None \<Rightarrow> Inr []
      | Some incs \<Rightarrow> forEachE 0 incs includedCluster)"

definition prepareDeviceType :: "xml_deviceType \<Rightarrow> js_error + prepared_deviceType" where
  "prepareDeviceType deviceType =
     bindE (textOfFirst (dt_deviceId deviceType)) (\<lambda>deviceId.
     bindE (textOfFirst (dt_profileId deviceType)) (\<lambda>profileId.
     bindE (first_of (dt_domain deviceType)) (\<lambda>domain.
     bindE (first_of (dt_name deviceType)) (\<lambda>name.
     bindE (first_of (dt_typeName deviceType)) (\<lambda>typeName.
     bindE (whenPresent (dt_clusters deviceType) includedClusters) (\<lambda>clusters.
       Inr \<lparr> pdt_code = js_parseInt deviceId None,
             pdt_profileId = js_parseInt profileId None,
             pdt_domain = domain, pdt_name = name, pdt_description = typeName,
             pdt_clusters = clusters \<rparr>))))))"

section \<open>Processing a parsed file\<close>

text \<open>
  The functions of \<^verbatim>\<open>db/query-loader.js\<close>, which is not part of the sources at hand,
  are given by how the promise of each is settled: \<open>le_insert\<close>. Of an insertion that
  \<^verbatim>\<open>processParsedZclData\<close> starts while it fills \<^verbatim>\<open>promisesStep2\<close>, \<open>le_early\<close> says
  whether its promise is settled while \<^verbatim>\<open>promisesStep1\<close> is still awaited; it is read
  only when that await has to wait. \<open>le_specIds\<close> is the number of ids that
  \<^verbatim>\<open>insertSpecs\<close> resolves with, and \<open>le_bitCount\<close> is \<^verbatim>\<open>bin.bitCount\<close>.
\<close>

record load_env =
  le_insert :: "insertion \<Rightarrow> promise"
  le_early :: "insertion \<Rightarrow> bool"
  le_specIds :: nat
  le_bitCount :: "jsval \<Rightarrow> int"

text \<open>\<^verbatim>\<open>return queryLoader.insert(db, packageId, data.map((x) => prepare(x)))\<close> in an
  \<^verbatim>\<open>async\<close> function: an exception of a preparer rejects the promise at once, and no
  insertion is called; otherwise the promise is that of the insertion.\<close>

definition insertPrepared :: "load_env \<Rightarrow> insertion \<Rightarrow> js_error + 'a \<Rightarrow> promise" where
  "insertPrepared env ins prepared =
     (case prepared of Inl e \<Rightarrow> SettledAtOnce (Some e) | Inr rows \<Rightarrow> le_insert env ins)"

text \<open>\<^verbatim>\<open>processAtomics\<close> reads \<^verbatim>\<open>data[0].type\<close> and its length.\<close>

definition processAtomics :: "load_env \<Rightarrow> xml_atomic list \<Rightarrow> promise" where
  "processAtomics env data =
     insertPrepared env InsertAtomics
       (bindE (first_of (Some data)) (\<lambda>first.
        bindE (dollar first) (\<lambda>atomic.
        bindE (dollar (xa_type atomic)) (\<lambda>types.
          mapE prepareAtomic types))))"

definition processBitmaps :: "load_env \<Rightarrow> xml_bitmap list \<Rightarrow> promise" where
  "processBitmaps env data =
     insertPrepared env InsertBitmaps (mapE (prepareBitmap (le_bitCount env)) data)"

definition processClusters :: "load_env \<Rightarrow> xml_cluster list \<Rightarrow> promise" where
  "processClusters env data =
     insertPrepared env InsertClusters (mapE (\<lambda>x. prepareCluster x False) data)"

definition processEnums :: "load_env \<Rightarrow> xml_enum list \<Rightarrow> promise" where
  "processEnums env data = insertPrepared env InsertEnums (mapE prepareEnum data)"

definition processStructs :: "load_env \<Rightarrow> xml_struct list \<Rightarrow> promise" where
  "processStructs env data = insertPrepared env InsertStructs (mapE prepareStruct data)"

definition processDeviceTypes :: "load_env \<Rightarrow> xml_deviceType list \<Rightarrow> promise" where
  "processDeviceTypes env data =
     insertPrepared env InsertDeviceTypes (mapE prepareDeviceType data)"

definition processGlobals :: "load_env \<Rightarrow> xml_cluster list \<Rightarrow> promise" where
  "processGlobals env data =
     insertPrepared env InsertGlobals (mapE (\<lambda>x. prepareCluster x True) data)"

definition processClusterExtensions :: "load_env \<Rightarrow> xml_cluster list \<Rightarrow> promise" where
  "processClusterExtensions env data =
     insertPrepared env InsertClusterExtensions (mapE (\<lambda>x. prepareCluster x True) data)"

text \<open>
  \<^verbatim>\<open>processDomains\<close> awaits \<^verbatim>\<open>insertSpecs\<close>, writes the ids it gets into the prepared
  domains (a \<^verbatim>\<open>TypeError\<close> when there are more ids than domains) and returns the promise
  of \<^verbatim>\<open>insertDomains\<close>.
\<close>

definition processDomains :: "load_env \<Rightarrow> xml_domain list \<Rightarrow> promise" where
  "processDomains env data =
     (case mapE prepareDomain data of
        Inl e \<Rightarrow> SettledAtOnce (Some e)
      | Inr preparedDomains \<Rightarrow>
          (case le_insert env InsertSpecs of
             SettledAtOnce (Some e) \<Rightarrow> SettledAtOnce (Some e)
           | SettledAtOnce None \<Rightarrow>
               if length preparedDomains < le_specIds env then SettledAtOnce (Some TypeError)
               else le_insert env InsertDomains
           | SettledLater (Some e) \<Rightarrow> SettledLater (Some e)
           | SettledLater None \<Rightarrow>
               if length preparedDomains < le_specIds env then SettledLater (Some TypeError)
               else (case le_insert env InsertDomains of
                       SettledAtOnce r \<Rightarrow> SettledLater r
                     | SettledLater r \<Rightarrow> SettledLater r)))"

text \<open>What the call of a function of \<^verbatim>\<open>promisesStep3\<close> does: it throws, or it returns
  \<^verbatim>\<open>null\<close> or a promise. \<^verbatim>\<open>processClusterGlobalAttributes\<close> is no \<^verbatim>\<open>async\<close>
  function, so an exception of its preparer is thrown by the call.\<close>

datatype called = Throws js_error | ReturnsNull | Returns promise

definition processClusterGlobalAttributes :: "load_env \<Rightarrow> xml_cluster list \<Rightarrow> called" where
  "processClusterGlobalAttributes env data =
     (case mapE prepareClusterGlobalAttribute data of
        Inl e \<Rightarrow> Throws e
      | Inr ps \<Rightarrow>
          if concat (map (\<lambda>p. case p of None \<Rightarrow> [] | Some obj \<Rightarrow> [obj]) ps) \<noteq> []
          then Returns (le_insert env InsertGlobalAttributeDefault)
          else ReturnsNull)"

text \<open>
  What \<^verbatim>\<open>util.parseXml\<close> gives for a file: \<^verbatim>\<open>null\<close>; an object without the key
  \<^verbatim>\<open>configurator\<close>; an object whose \<^verbatim>\<open>configurator\<close> is a string, as it is for an
  element that has text only or is empty; or an object whose \<^verbatim>\<open>configurator\<close> is an
  object, with the element arrays under its keys.
\<close>

record configurator =
  cf_atomic :: "xml_atomic list option"
  cf_bitmap :: "xml_bitmap list option"
  cf_cluster :: "xml_cluster list option"
  cf_domain :: "xml_domain list option"
  cf_enum :: "xml_enum list option"
  cf_struct :: "xml_struct list option"
  cf_deviceType :: "xml_deviceType list option"
  cf_global :: "xml_cluster list option"
  cf_clusterExtension :: "xml_cluster list option"

datatype zcl_data = NullData | NoConfigurator | ConfiguratorText | Configurator configurator

text \<open>\<^verbatim>\<open>if ('key' in data.configurator) array.push(f(data.configurator.key))\<close>.\<close>

definition pushIf :: "'a option \<Rightarrow> ('a \<Rightarrow> 'b) \<Rightarrow> 'b list" where
  "pushIf key f = (case key of None \<Rightarrow> [] | Some data \<Rightarrow> [f data])"

text \<open>The three arrays as \<^verbatim>\<open>processParsedZclData\<close> fills them. The promises of the
  second array come with what \<open>le_early\<close> says of their insertion.\<close>

definition promisesStep1 :: "load_env \<Rightarrow> configurator \<Rightarrow> promise list" where
  "promisesStep1 env c = pushIf (cf_domain c) (processDomains env)"

definition promisesStep2 :: "load_env \<Rightarrow> configurator \<Rightarrow> (promise \<times> bool) list" where
  "promisesStep2 env c =
     pushIf (cf_atomic c) (\<lambda>data. (processAtomics env data, le_early env InsertAtomics)) @
     pushIf (cf_bitmap c) (\<lambda>data. (processBitmaps env data, le_early env InsertBitmaps)) @
     pushIf (cf_cluster c) (\<lambda>data. (processClusters env data, le_early env InsertClusters)) @
     pushIf (cf_enum c) (\<lambda>data. (processEnums env data, le_early env InsertEnums)) @
     pushIf (cf_struct c) (\<lambda>data. (processStructs env data, le_early env InsertStructs)) @
     pushIf (cf_deviceType c)
       (\<lambda>data. (processDeviceTypes env data, le_early env InsertDeviceTypes)) @
     pushIf (cf_global c) (\<lambda>data. (processGlobals env data, le_early env InsertGlobals))"

definition promisesStep3 :: "load_env \<Rightarrow> configurator \<Rightarrow> called list" where
  "promisesStep3 env c =
     pushIf (cf_cluster c) (processClusterGlobalAttributes env) @
     pushIf (cf_clusterExtension c) (\<lambda>data. Returns (processClusterExtensions env data))"

text \<open>
  \<^verbatim>\<open>await Promise.all(promisesStep1); await Promise.all(promisesStep2); return
  Promise.all(promisesStep3)\<close>. The promises of the second array are handled only from the
  second \<^verbatim>\<open>await\<close> on. The result is what the caller's \<^verbatim>\<open>await\<close> gets, together with
  the rejections that are left without a handler when the promise of
  \<^verbatim>\<open>processParsedZclData\<close> is settled: each of them ends the process when it happens.

  \<^item> A promise of the first array is rejected at once: so is the promise of the function,
    and the second array is never handled.
  \<^item> The first array is empty, or all its promises are fulfilled at once: its
    \<^verbatim>\<open>Promise.all\<close> is fulfilled before the event is through, so the second array is
    handled in time, whatever it holds.
  \<^item> Otherwise the first \<^verbatim>\<open>await\<close> waits for a later event. A promise of the second
    array that is rejected at once, or rejected while the first array is awaited, has no
    handler, and the process ends there. If there is none, the function is rejected with
    the rejection of the first array, which leaves the second array without a handler, or
    it goes on to the second \<^verbatim>\<open>await\<close>.
\<close>

definition awaitSteps ::
  "promise list \<Rightarrow> (promise \<times> bool) list \<Rightarrow> 'a \<Rightarrow> 'a awaited \<times> js_error list" where
  "awaitSteps step1 step2 step3 =
     (case atOnce step1 of
        e # es \<Rightarrow> (RejectedWith e, rejections (map fst step2))
      | [] \<Rightarrow>
          if waiting step1 = [] then
            (case rejections (map fst step2) of
               e # es \<Rightarrow> (RejectedWith e, [])
             | [] \<Rightarrow> (Fulfilled step3, []))
          else
            (case atOnce (map fst step2) @ afterwards (map fst (filter snd step2)) of
               e # es \<Rightarrow> (ProcessEnds e, [])
             | [] \<Rightarrow>
                 (case afterwards step1 of
                    e # es \<Rightarrow> (RejectedWith e, afterwards (map fst step2))
                  | [] \<Rightarrow>
                      (case afterwards (map fst step2) of
                         e # es \<Rightarrow> (RejectedWith e, [])
                       | [] \<Rightarrow> (Fulfilled step3, [])))))"

text \<open>\<^verbatim>\<open>processParsedZclData\<close>; the argument is \<^verbatim>\<open>argument.result\<close>, \<open>None\<close> when the
  key \<^verbatim>\<open>result\<close> is absent. The operator \<^verbatim>\<open>in\<close> throws a \<^verbatim>\<open>TypeError\<close> when its
  right side is no object, which rejects the promise before any array is filled.\<close>

definition processParsedZclData ::
  "load_env \<Rightarrow> zcl_data option \<Rightarrow> called list awaited \<times> js_error list" where
  "processParsedZclData env result =
     (case result of
        None \<Rightarrow> (Fulfilled [], [])
      | Some NullData \<Rightarrow> (RejectedWith TypeError, [])
      | Some NoConfigurator \<Rightarrow> awaitSteps [] [] []
      | Some ConfiguratorText \<Rightarrow> (RejectedWith TypeError, [])
      | Some (Configurator c) \<Rightarrow>
          awaitSteps (promisesStep1 env c) (promisesStep2 env c) (promisesStep3 env c))"

section \<open>Loading a single file\<close>

text \<open>
  \<^verbatim>\<open>loadIndividualSilabsFile\<close>. Reading the file, \<^verbatim>\<open>zclLoader.qualifyZclFile\<close>,
  \<^verbatim>\<open>util.parseXml\<close> and \<^verbatim>\<open>zclLoader.processZclPostLoading\<close> are outside the sources
  at hand: each is a parameter that gives a value or the error it rejects with. A promise
  that never settles is not modelled.
\<close>

record 'c qualified_file =
  q_packageId :: "nat option"
  q_data :: "'c option"

datatype validation = Validation (isValid: "bool option")

record 'c file_loader =
  fl_readFile :: "string \<Rightarrow> js_error + 'c"
  fl_qualifyZclFile :: "'c \<Rightarrow> js_error + 'c qualified_file option"
  fl_parseXml :: "'c \<Rightarrow> js_error + zcl_data"
  fl_processZclPostLoading :: "js_error + unit"

text \<open>The object the function resolves with: \<^verbatim>\<open>{ succeeded: true, packageId }\<close> or
  \<^verbatim>\<open>{ succeeded: false, err }\<close>.\<close>

datatype load_result = Succeeded "nat option" | NotSucceeded js_error

text \<open>The body of the \<^verbatim>\<open>try\<close> up to the call of \<^verbatim>\<open>processParsedZclData\<close>: it
  gives \<^verbatim>\<open>pkgId\<close> and \<^verbatim>\<open>result.result\<close>, or the exception. The validator is \<open>None\<close>
  when \<^verbatim>\<open>boundValidator\<close> is \<^verbatim>\<open>null\<close>; what it returns is \<open>None\<close> when falsy.\<close>

definition qualifyAndParse ::
  "'c file_loader \<Rightarrow> string \<Rightarrow> ('c \<Rightarrow> js_error + validation option) option \<Rightarrow>
   js_error + nat option \<times> zcl_data option" where
  "qualifyAndParse l filePath boundValidator =
     bindE (fl_readFile l filePath) (\<lambda>fileContent.
     bindE (fl_qualifyZclFile l fileContent) (\<lambda>result.
     bindE (dollar result) (\<lambda>result.
     let pkgId = q_packageId result in
     bindE (case boundValidator of
              None \<Rightarrow> Inr None
            | Some validator \<Rightarrow> validator fileContent) (\<lambda>validation.
     bindE (case q_data result of
              None \<Rightarrow> Inr None
            | Some d \<Rightarrow> bindE (fl_parseXml l d) (\<lambda>x. Inr (Some x))) (\<lambda>parsed.
     bindE (case validation of
              Some (Validation (Some False)) \<Rightarrow> Inl (Thrown ''Validation Failed'')
            | _ \<Rightarrow> Inr ()) (\<lambda>u.
       Inr (pkgId, parsed)))))))"

text \<open>\<^verbatim>\<open>laterPromises.flat(1).map((promise) => promise())\<close>: the promises the calls have
  returned, and the exception when a call throws, which ends the loop. A \<^verbatim>\<open>null\<close> among
  them counts as fulfilled for \<^verbatim>\<open>Promise.all\<close> and is left out.\<close>

fun callEach :: "called list \<Rightarrow> promise list \<times> js_error option" where
  "callEach [] = ([], None)"
| "callEach (Throws e # cs) = ([], Some e)"
| "callEach (ReturnsNull # cs) = callEach cs"
| "callEach (Returns p # cs) = (case callEach cs of (ps, thrown) \<Rightarrow> (p # ps, thrown))"

text \<open>\<^verbatim>\<open>await Promise.all(laterPromises.flat(1).map((promise) => promise()))\<close>. When a
  call throws, the promises returned before it are left without a handler.\<close>

definition callLaterPromises :: "called list \<Rightarrow> unit awaited \<times> js_error list" where
  "callLaterPromises cs =
     (case callEach cs of
        (ps, Some e) \<Rightarrow> (RejectedWith e, rejections ps)
      | (ps, None) \<Rightarrow>
          (case rejections ps of
             e # es \<Rightarrow> (RejectedWith e, [])
           | [] \<Rightarrow> (Fulfilled (), [])))"

text \<open>
  The function: what its caller's \<^verbatim>\<open>await\<close> gets, and the rejections left without a
  handler by then. Every exception at an \<^verbatim>\<open>await\<close> of the body is under the
  \<^verbatim>\<open>catch\<close>.
\<close>

definition loadIndividualSilabsFile ::
  "'c file_loader \<Rightarrow> load_env \<Rightarrow> string \<Rightarrow> ('c \<Rightarrow> js_error + validation option) option \<Rightarrow>
   load_result awaited \<times> js_error list" where
  "loadIndividualSilabsFile l env filePath boundValidator =
     (case qualifyAndParse l filePath boundValidator of
        Inl err \<Rightarrow> (Fulfilled (NotSucceeded err), [])
      | Inr (pkgId, result) \<Rightarrow>
          (case processParsedZclData env result of
             (ProcessEnds e, left) \<Rightarrow> (ProcessEnds e, left)
           | (RejectedWith err, left) \<Rightarrow> (Fulfilled (NotSucceeded err), left)
           | (Fulfilled laterPromises, left) \<Rightarrow>
               (case callLaterPromises laterPromises of
                  (ProcessEnds e, left') \<Rightarrow> (ProcessEnds e, left @ left')
                | (RejectedWith err, left') \<Rightarrow> (Fulfilled (NotSucceeded err), left @ left')
                | (Fulfilled u, left') \<Rightarrow>
                    (case fl_processZclPostLoading l of
                       Inl err \<Rightarrow> (Fulfilled (NotSucceeded err), left @ left')
                     | Inr u \<Rightarrow> (Fulfilled (Succeeded pkgId), left @ left')))))"

section \<open>Loading from a manifest\<close>

text \<open>
  Modelled from the spec: the store behind \<^verbatim>\<open>dbApi.dbBeginTransaction\<close> and
  \<^verbatim>\<open>dbApi.dbCommit\<close> of \<^verbatim>\<open>db/db-api.js\<close>, which is not part of the sources at hand. The
  spec takes it as a transactional store with \<^verbatim>\<open>beginTransaction\<close>, \<^verbatim>\<open>commit\<close> and
  \<^verbatim>\<open>insert\<close>, on which no nested or overlapping transactions are permitted: a
  transaction cannot be begun while one is open; a row inserted inside a transaction is
  pending; and the commit makes the pending rows committed, which is what readers see. A
  rollback would drop the pending rows; the loader never calls one.
\<close>

record 'r store =
  db_committed :: "'r list"
  db_pending :: "'r list"
  db_inTransaction :: bool

definition dbBeginTransaction :: "'r store \<Rightarrow> 'r store awaited" where
  "dbBeginTransaction db =
     (if db_inTransaction db
      then RejectedWith (Rejected ''cannot start a transaction within a transaction'')
      else Fulfilled (db\<lparr> db_inTransaction := True \<rparr>))"


definition dbInsert :: "'r list \<Rightarrow> 'r store \<Rightarrow> 'r store" where
  "dbInsert rows db =
     (if db_inTransaction db then db\<lparr> db_pending := db_pending db @ rows \<rparr>
      else db\<lparr> db_committed := db_committed db @ rows \<rparr>)"

text \<open>
  What \<^verbatim>\<open>loadSilabsZcl\<close> awaits in its \<^verbatim>\<open>try\<close>, one after the other, are calls that
  work on the store through the handle \<^verbatim>\<open>db\<close>: each is a parameter that gives, for the
  store it finds, what the \<^verbatim>\<open>await\<close> gets and the rows inserted by then. The process can
  end at such an \<^verbatim>\<open>await\<close>: \<^verbatim>\<open>parseZclFiles\<close> hands on, for every file, the promise of
  \<^verbatim>\<open>processParsedZclData\<close>, which leaves the promises of its second array without a
  handler while it awaits the first. \<open>await\<close> runs one call and goes on with the value,
  or stops with the exception or with the end of the process.
\<close>

type_synonym ('r, 'a) step = "'r store \<Rightarrow> 'a awaited \<times> 'r list"

definition await ::
  "('r, 'a) step \<Rightarrow> ('a \<Rightarrow> 'r store \<Rightarrow> 'b awaited \<times> 'r store) \<Rightarrow>
   'r store \<Rightarrow> 'b awaited \<times> 'r store" where
  "await stp k db =
     (case stp db of
        (Fulfilled x, rows) \<Rightarrow> k x (dbInsert rows db)
      | (RejectedWith e, rows) \<Rightarrow> (RejectedWith e, dbInsert rows db)
      | (ProcessEnds e, rows) \<Rightarrow> (ProcessEnds e, dbInsert rows db))"

text \<open>\<^verbatim>\<open>if (x) await f(x)\<close>, for an \<open>x\<close> that is absent or falsy when \<open>None\<close>.\<close>

definition awaitIf :: "'x option \<Rightarrow> ('x \<Rightarrow> ('r, unit) step) \<Rightarrow> ('r, unit) step" where
  "awaitIf x f = (case x of None \<Rightarrow> (\<lambda>db. (Fulfilled (), [])) | Some v \<Rightarrow> f v)"

text \<open>What \<^verbatim>\<open>collectDataFromJsonFile\<close> or \<^verbatim>\<open>collectDataFromPropertiesFile\<close> puts into
  the context.\<close>

record ('o, 'd) manifest =
  mf_zclFiles :: "string list"
  mf_manufacturersXml :: "string option"
  mf_zclSchema :: "string option"
  mf_zclValidation :: "string option"
  mf_options :: "'o option"
  mf_defaults :: "'d option"
  mf_version :: "string option"
  mf_supportCustomZclDevice :: bool

record ('m, 'o, 'd) load_context =
  ctx_metadataFile :: string
  ctx_metadata :: 'm
  ctx_packageId :: nat
  ctx_manifest :: "('o, 'd) manifest"

record ('r, 'm, 'o, 'd) manifest_loader =
  ml_readMetadataFile :: "string \<Rightarrow> ('r, 'm) step"
  ml_recordToplevelPackage :: "string \<Rightarrow> 'm \<Rightarrow> ('r, nat) step"
  ml_collectData :: "bool \<Rightarrow> string \<Rightarrow> 'm \<Rightarrow> ('r, ('o, 'd) manifest) step"
  ml_recordVersion :: "nat \<Rightarrow> string \<Rightarrow> ('r, unit) step"
  ml_parseZclFiles :: "nat \<Rightarrow> string list \<Rightarrow> ('r, unit) step"
  ml_parseManufacturerData :: "nat \<Rightarrow> string \<Rightarrow> ('r, unit) step"
  ml_processCustomZclDeviceType :: "nat \<Rightarrow> ('r, unit) step"
  ml_parseOptions :: "nat \<Rightarrow> 'o \<Rightarrow> ('r, unit) step"
  ml_parseDefaults :: "nat \<Rightarrow> 'd \<Rightarrow> ('r, unit) step"
  ml_parseZclSchema :: "nat \<Rightarrow> string \<Rightarrow> string \<Rightarrow> ('r, unit) step"

text \<open>The body of the \<^verbatim>\<open>try\<close> of \<^verbatim>\<open>loadSilabsZcl\<close>.\<close>

definition loadSilabsZclBody ::
  "('r, 'm, 'o, 'd) manifest_loader \<Rightarrow> string \<Rightarrow> bool \<Rightarrow> 'r store \<Rightarrow>
   ('m, 'o, 'd) load_context awaited \<times> 'r store" where
  "loadSilabsZclBody l metafile isJson =
     await (ml_readMetadataFile l metafile) (\<lambda>metadata.
     await (ml_recordToplevelPackage l metafile metadata) (\<lambda>packageId.
     await (ml_collectData l isJson metafile metadata) (\<lambda>mf.
     await (awaitIf (mf_version mf) (ml_recordVersion l packageId)) (\<lambda>u.
     await (ml_parseZclFiles l packageId (mf_zclFiles mf)) (\<lambda>u.
     await (awaitIf (mf_manufacturersXml mf) (ml_parseManufacturerData l packageId)) (\<lambda>u.
     await (awaitIf (if mf_supportCustomZclDevice mf then Some () else None)
              (\<lambda>u. ml_processCustomZclDeviceType l packageId)) (\<lambda>u.
     await (awaitIf (mf_options mf) (ml_parseOptions l packageId)) (\<lambda>u.
     await (awaitIf (mf_defaults mf) (ml_parseDefaults l packageId)) (\<lambda>u.
     await (awaitIf (case (mf_zclSchema mf, mf_zclValidation mf) of
                       (Some s, Some v) \<Rightarrow> Some (s, v) | _ \<Rightarrow> None)
              (\<lambda>sv. ml_parseZclSchema l packageId (fst sv) (snd sv))) (\<lambda>u db.
       (Fulfilled \<lparr> ctx_metadataFile = metafile, ctx_metadata = metadata,
                     ctx_packageId = packageId, ctx_manifest = mf \<rparr>, db)))))))))))"

text \<open>
  \<^verbatim>\<open>loadSilabsZcl\<close>. The transaction is begun before the \<^verbatim>\<open>try\<close>, so an exception at
  that \<^verbatim>\<open>await\<close> goes to the caller past the \<^verbatim>\<open>catch\<close> and the \<^verbatim>\<open>finally\<close>. Then the
  body runs; the \<^verbatim>\<open>catch\<close> logs the exception and throws it again, and the
  \<^verbatim>\<open>finally\<close> calls \<^verbatim>\<open>dbApi.dbCommit(db)\<close> without awaiting it. The result is what the
  caller's \<^verbatim>\<open>await\<close> gets, the store at that moment, and whether the commit has been
  called by then; the store is \<open>dbCommit\<close> of the second component once a commit that was
  called has run. When the process ends in the body, neither the \<^verbatim>\<open>catch\<close> nor the
  \<^verbatim>\<open>finally\<close> is reached.
\<close>

definition loadSilabsZcl ::
  "('r, 'm, 'o, 'd) manifest_loader \<Rightarrow> string \<Rightarrow> bool \<Rightarrow> 'r store \<Rightarrow>
   ('m, 'o, 'd) load_context awaited \<times> 'r store \<times> bool" where
  "loadSilabsZcl l metafile isJson db =
     (case dbBeginTransaction db of
        RejectedWith err \<Rightarrow> (RejectedWith err, db, False)
      | ProcessEnds err \<Rightarrow> (ProcessEnds err, db, False)
      | Fulfilled db0 \<Rightarrow>
          (case loadSilabsZclBody l metafile isJson db0 of
             (Fulfilled ctx, db') \<Rightarrow> (Fulfilled ctx, db', True)
           | (RejectedWith err, db') \<Rightarrow> (RejectedWith err, db', True)
           | (ProcessEnds err, db') \<Rightarrow> (ProcessEnds err, db', False)))"


section \<open>Example inputs\<close>

text \<open>A struct, an enum and a bitmap as the parser gives them, and a cluster with two
  commands (one with an argument that was removed from the specification), three
  attributes and two global attributes.\<close>

definition ex_struct :: xml_struct where
  "ex_struct =
     \<lparr> st_attrs = Some \<lparr> sa_name = Some ''Protocol'' \<rparr>,
       st_item = Some
         [Some \<lparr> sia_name = Some ''manufacturerCode'', sia_type = Some ''INT16U'',
                  sia_entryType = None, sia_length = None, sia_writable = None \<rparr>,
          Some \<lparr> sia_name = Some ''protocolId'', sia_type = Some ''ENUM8'',
                  sia_entryType = None, sia_length = None, sia_writable = None \<rparr>,
          Some \<lparr> sia_name = Some ''label'', sia_type = Some ''CHAR_STRING'',
                  sia_entryType = None, sia_length = Some ''16'',
                  sia_writable = Some ''true'' \<rparr>] \<rparr>"

definition ex_enum :: xml_enum where
  "ex_enum =
     \<lparr> en_attrs = Some \<lparr> ea_name = Some ''Status'', ea_type = Some ''ENUM8'' \<rparr>,
       en_item = Some
         [Some \<lparr> eia_name = Some ''Success'', eia_value = Some ''0x00'' \<rparr>,
          Some \<lparr> eia_name = Some ''Failure'', eia_value = Some ''0x01'' \<rparr>] \<rparr>"

definition ex_bitmap :: xml_bitmap where
  "ex_bitmap =
     \<lparr> bm_attrs = Some \<lparr> ba_name = Some ''LocationType'', ba_type = Some ''BITMAP8'' \<rparr>,
       bm_field = Some
         [Some \<lparr> fa_name = Some ''Absolute'', fa_mask = Some ''0x01'' \<rparr>,
          Some \<lparr> fa_name = Some ''Method'', fa_mask = Some ''0x0C'' \<rparr>] \<rparr>"

definition ex_arg :: "string \<Rightarrow> string option \<Rightarrow> arg_attrs" where
  "ex_arg name removedIn =
     \<lparr> aa_name = Some name, aa_type = Some ''INT8U'', aa_array = None,
       aa_presentIf = None, aa_countArg = None, aa_introducedIn = None,
       aa_removedIn = removedIn \<rparr>"

definition ex_command :: "string \<Rightarrow> string option \<Rightarrow> arg_attrs option list option \<Rightarrow> xml_command" where
  "ex_command code mfg args =
     \<lparr> cmd_attrs = Some \<lparr> ca_code = Some code, ca_manufacturerCode = mfg,
                          ca_name = Some ''Move'', ca_source = Some ''client'',
                          ca_optional = Some ''false'', ca_introducedIn = None,
                          ca_removedIn = None \<rparr>,
       cmd_description = Some ['' Move to a level. ''],
       cmd_arg = args \<rparr>"

definition ex_attribute :: "string \<Rightarrow> string option \<Rightarrow> string option \<Rightarrow> xml_attribute" where
  "ex_attribute code mfg removedIn =
     \<lparr> att_attrs = Some \<lparr> ata_code = Some code, ata_manufacturerCode = mfg,
                          ata_type = Some ''INT8U'', ata_side = Some ''server'',
                          ata_define = Some ''CURRENT_LEVEL'', ata_min = None,
                          ata_max = None, ata_length = None, ata_writable = Some ''false'',
                          ata_default = Some ''0x00'', ata_optional = Some ''false'',
                          ata_reportable = None, ata_sceneRequired = None,
                          ata_introducedIn = None, ata_removedIn = removedIn,
                          ata_entryType = None \<rparr>,
       att_text = Some ''current level'' \<rparr>"

definition ex_args :: "arg_attrs list" where
  "ex_args = [ex_arg ''level'' None, ex_arg ''legacy'' (Some ''zcl-7.0''),
              ex_arg ''transitionTime'' None]"

definition ex_cluster :: xml_cluster where
  "ex_cluster =
     \<lparr> cl_attrs = Some \<lparr> cla_code = None, cla_manufacturerCode = Some ''0x1049'',
                         cla_singleton = None, cla_introducedIn = None,
                         cla_removedIn = None \<rparr>,
       cl_code = Some [''0x0008''],
       cl_name = Some [''Level Control''],
       cl_description = Some [''Attributes and commands for a level.''],
       cl_define = Some [''LEVEL_CONTROL_CLUSTER''],
       cl_domain = Some [''General''],
       cl_command = Some [ex_command ''0x00'' None (Some (map Some ex_args)),
                          ex_command ''0x01'' (Some ''0x1002'') None],
       cl_attribute = Some [ex_attribute ''0x0000'' None None,
                            ex_attribute ''0x0001'' (Some ''0x1002'') None,
                            ex_attribute ''0x0002'' None (Some ''zcl-7.0'')],
       cl_globalAttribute = Some
         [Some \<lparr> gaa_code = Some ''0xFFFD'', gaa_side = Some ''either'',
                  gaa_value = Some ''3'' \<rparr>,
          Some \<lparr> gaa_code = Some ''0xFFFC'', gaa_side = Some ''server'',
                  gaa_value = Some ''1'' \<rparr>] \<rparr>"

text \<open>Option rows in which a manufacturer code stands in its hexadecimal form.\<close>

definition ex_queries :: package_queries where
  "ex_queries =
     \<lparr> selectSpecificOptionValue =
         (\<lambda>pkg category code.
            if category = ''manufacturerCodes'' \<and> code = JStr ''0x1002''
            then Inr (Some \<lparr> or_id = 7, or_code = ''0x1002'' \<rparr>)
            else Inr None),
       insertDefaultOptionValue = (\<lambda>pkg category rowId. Inr ()) \<rparr>"

text \<open>
  Files for the load of a single file, each given by what the parser makes of it; the
  content of a file is stood for by its name.

  \<^item> \<^verbatim>\<open>protocol.xml\<close> holds the struct above.
  \<^item> \<^verbatim>\<open>dimmer.xml\<close> holds a domain, with the attributes \<^verbatim>\<open>name\<close> and \<^verbatim>\<open>spec\<close>,
    and a cluster that has a child \<^verbatim>\<open>name\<close> but no child \<^verbatim>\<open>code\<close>.
  \<^item> \<^verbatim>\<open>cluster.xml\<close> holds that cluster alone.
  \<^item> \<^verbatim>\<open>types.xml\<close> holds the same domain and one atomic type.
  \<^item> \<^verbatim>\<open>empty.xml\<close> is an empty \<^verbatim>\<open>configurator\<close> element.
  \<^item> \<^verbatim>\<open>missing.xml\<close> cannot be read.
\<close>

definition ex_configurator :: configurator where
  "ex_configurator =
     \<lparr> cf_atomic = None, cf_bitmap = None, cf_cluster = None, cf_domain = None,
       cf_enum = None, cf_struct = None, cf_deviceType = None, cf_global = None,
       cf_clusterExtension = None \<rparr>"

definition ex_domain :: xml_domain where
  "ex_domain =
     \<lparr> dom_attrs = Some \<lparr> da_name = Some ''General'', da_spec = Some ''zcl-7.0'',
                          da_certifiable = None \<rparr>,
       dom_older = None \<rparr>"

definition ex_codeless :: xml_cluster where
  "ex_codeless =
     \<lparr> cl_attrs = None, cl_code = None, cl_name = Some [''Dimmer''],
       cl_description = None, cl_define = None, cl_domain = None, cl_command = None,
       cl_attribute = None, cl_globalAttribute = None \<rparr>"

definition ex_atomic :: xml_atomic where
  "ex_atomic =
     \<lparr> xa_type = Some
         [Some \<lparr> ty_name = Some ''int8u'', ty_id = Some ''0x20'', ty_size = Some ''1'',
                  ty_description = None, ty_discrete = None, ty_signed = None,
                  ty_string = None, ty_long = None, ty_char = None \<rparr>] \<rparr>"

definition ex_parsed :: "string \<Rightarrow> zcl_data" where
  "ex_parsed content =
     (if content = ''protocol.xml''
      then Configurator (ex_configurator\<lparr> cf_struct := Some [ex_struct] \<rparr>)
      else if content = ''dimmer.xml''
      then Configurator (ex_configurator\<lparr> cf_domain := Some [ex_domain],
                                          cf_cluster := Some [ex_codeless] \<rparr>)
      else if content = ''cluster.xml''
      then Configurator (ex_configurator\<lparr> cf_cluster := Some [ex_codeless] \<rparr>)
      else if content = ''types.xml''
      then Configurator (ex_configurator\<lparr> cf_domain := Some [ex_domain],
                                          cf_atomic := Some [ex_atomic] \<rparr>)
      else ConfiguratorText)"

definition ex_file_loader :: "string file_loader" where
  "ex_file_loader =
     \<lparr> fl_readFile =
         (\<lambda>path. if path = ''missing.xml'' then Inl (Rejected ''ENOENT'') else Inr path),
       fl_qualifyZclFile = (\<lambda>c. Inr (Some \<lparr> q_packageId = Some 3, q_data = Some c \<rparr>)),
       fl_parseXml = (\<lambda>c. Inr (ex_parsed c)),
       fl_processZclPostLoading = Inr () \<rparr>"

text \<open>A store on which every insertion is resolved, and one on which the insertion of the
  atomic types is rejected, which it is before the insertion of the specs is resolved.\<close>

definition ex_env :: load_env where
  "ex_env =
     \<lparr> le_insert = (\<lambda>ins. SettledLater None), le_early = (\<lambda>ins. False), le_specIds = 1,
       le_bitCount = (\<lambda>n. 0) \<rparr>"

definition ex_env_busy :: load_env where
  "ex_env_busy =
     \<lparr> le_insert =
         (\<lambda>ins. if ins = InsertAtomics then SettledLater (Some (Rejected ''SQLITE_BUSY''))
                 else SettledLater None),
       le_early = (\<lambda>ins. ins = InsertAtomics), le_specIds = 1,
       le_bitCount = (\<lambda>n. 0) \<rparr>"







text \<open>A file with atomic types, a domain and a cluster with global attributes, and its
  load in which every insertion is resolved.\<close>

definition ex_file :: parsed_file where
  "ex_file =
     \<lparr> pf_atomic = True, pf_bitmap = False, pf_cluster = True, pf_domain = True,
       pf_enum = False, pf_struct = False, pf_deviceType = False, pf_global = False,
       pf_clusterExtension = False, pf_globalAttribute = True \<rparr>"

definition ex_actions :: "action list" where
  "ex_actions =
     [Enter 0, Resolves 0 InsertAtomics, Resolves 0 InsertSpecs, Resolves 0 InsertDomains,
      Step1Settled 0, Resolves 0 InsertClusters, Step2Settled 0, CallLater,
      Resolves 0 InsertGlobalAttributeDefault]"

definition ex_trace :: "event list" where
  "ex_trace =
     [Call 0 InsertAtomics, Call 0 InsertClusters, Call 0 InsertSpecs,
      Done 0 InsertAtomics, Done 0 InsertSpecs, Call 0 InsertDomains,
      Done 0 InsertDomains, Done 0 InsertClusters,
      Call 0 InsertGlobalAttributeDefault, Done 0 InsertGlobalAttributeDefault]"

section \<open>Properties\<close>

subsection \<open>Loops that push rows\<close>

lemma bindE_Inr_iff: "bindE m f = Inr y \<longleftrightarrow> (\<exists>x. m = Inr x \<and> f x = Inr y)"
  by (cases m) (simp_all add: bindE_def)

lemma dollar_Inr_iff: "dollar a = Inr x \<longleftrightarrow> a = Some x"
  by (cases a) (simp_all add: dollar_def)

lemma forEachE_Inr:
  "forEachE i xs f = Inr ys \<Longrightarrow>
     \<exists>rows. length rows = length xs \<and>
            (\<forall>k < length xs. f (i + k) (xs ! k) = Inr (rows ! k)) \<and> ys = concat rows"
proof (induction xs arbitrary: i ys)
  case Nil
  then show ?case by simp
next
  case (Cons x xs)
  from Cons.prems obtain r rest where
    r: "f i x = Inr r" and rest: "forEachE (Suc i) xs f = Inr rest" and ys: "ys = r @ rest"
    by (auto simp: bindE_Inr_iff)
  from Cons.IH [OF rest] obtain rows where
    len: "length rows = length xs" and
    each: "\<And>k. k < length xs \<Longrightarrow> f (Suc i + k) (xs ! k) = Inr (rows ! k)" and
    cat: "rest = concat rows"
    by blast
  have "\<forall>k < length (x # xs). f (i + k) ((x # xs) ! k) = Inr ((r # rows) ! k)"
  proof (intro allI impI)
    fix k assume k: "k < length (x # xs)"
    show "f (i + k) ((x # xs) ! k) = Inr ((r # rows) ! k)"
    proof (cases k)
      case 0
      then show ?thesis using r by simp
    next
      case (Suc j)
      with k have "j < length xs" by simp
      from each [OF this] show ?thesis using Suc by simp
    qed
  qed
  moreover have "length (r # rows) = length (x # xs)" using len by simp
  moreover have "ys = concat (r # rows)" using ys cat by simp
  ultimately show ?case by blast
qed

lemma whenPresent_Some_Inr:
  "whenPresent (Some xs) f = Inr r \<Longrightarrow> \<exists>ys. r = Some ys \<and> forEachE 0 xs f = Inr ys"
  by (auto simp: whenPresent_def bindE_Inr_iff)

lemma concat_singletons:
  assumes "length rows = n" and "\<forall>k < n. \<exists>y. rows ! k = [y]"
  shows "length (concat rows) = n \<and> (\<forall>k < n. rows ! k = [concat rows ! k])"
proof -
  have "rows = map (\<lambda>y. [y]) (map hd rows)"
    using assms by (intro nth_equalityI) auto
  then obtain ys where rows: "rows = map (\<lambda>y. [y]) ys" ..
  have cat: "concat (map (\<lambda>y. [y]) ys) = ys"
    by (induction ys) simp_all
  show ?thesis using assms(1) by (simp add: rows cat)
qed

lemma all_Some:
  "\<forall>k < length xs. \<exists>a. xs ! k = Some a \<Longrightarrow> \<exists>as. xs = map Some as"
proof -
  assume h: "\<forall>k < length xs. \<exists>a. xs ! k = Some a"
  have "xs = map Some (map the xs)"
    using h by (intro nth_equalityI) auto
  then show ?thesis ..
qed

lemma forEachE_singletons:
  assumes "forEachE i xs f = Inr ys"
    and "\<And>j x r. f j x = Inr r \<Longrightarrow> \<exists>y. r = [y]"
  shows "length ys = length xs \<and> (\<forall>k < length xs. f (i + k) (xs ! k) = Inr [ys ! k])"
proof -
  from forEachE_Inr [OF assms(1)] obtain rows where
    len: "length rows = length xs" and
    each: "\<forall>k < length xs. f (i + k) (xs ! k) = Inr (rows ! k)" and
    ys: "ys = concat rows"
    by blast
  have "\<forall>k < length xs. \<exists>y. rows ! k = [y]"
    using each assms(2) by blast
  from concat_singletons [OF len this] show ?thesis
    using each ys by auto
qed

text \<open>A loop whose callback reads the element's attributes.\<close>

lemma forEachE_dollar:
  assumes run: "forEachE 0 xs f = Inr ys"
    and f: "\<And>j x r. f j x = Inr r \<longleftrightarrow> (\<exists>a. x = Some a \<and> r = h j a)"
  shows "\<exists>as. xs = map Some as \<and> ys = concat (map (\<lambda>(j, a). h j a) (enumerate 0 as))"
proof -
  from forEachE_Inr [OF run] obtain rows where
    len: "length rows = length xs" and
    each: "\<forall>k < length xs. f (0 + k) (xs ! k) = Inr (rows ! k)" and
    ys: "ys = concat rows"
    by blast
  from each have "\<forall>k < length xs. \<exists>a. xs ! k = Some a"
    by (metis f)
  from all_Some [OF this] obtain as where as: "xs = map Some as" ..
  have "rows = map (\<lambda>(j, a). h j a) (enumerate 0 as)"
  proof (rule nth_equalityI)
    show "length rows = length (map (\<lambda>(j, a). h j a) (enumerate 0 as))"
      using len as by simp
  next
    fix k assume "k < length rows"
    then have k: "k < length as" using len as by simp
    with each have "rows ! k = h k (as ! k)" by (simp add: as f)
    then show "rows ! k = map (\<lambda>(j, a). h j a) (enumerate 0 as) ! k"
      using k by (simp add: nth_enumerate_eq)
  qed
  with as ys show ?thesis by blast
qed

lemma concat_rows:
  "concat (map (\<lambda>(j, a). [g j a]) ps) = map (\<lambda>(j, a). g j a) ps"
  by (induction ps) auto

lemma concat_kept:
  "concat (map (\<lambda>(j, a). if P a then [g j a] else []) ps) =
     map (\<lambda>(j, a). g j a) (filter (\<lambda>(j, a). P a) ps)"
  by (induction ps) auto

lemma map_enumerate_ordinal:
  "(\<And>j a. ord (g j a) = j) \<Longrightarrow>
   map ord (map (\<lambda>(j, a). g j a) (enumerate i as)) = [i ..< i + length as]"
  by (induction as arbitrary: i) (simp_all add: upt_rec)

lemma whenPresent_rows:
  assumes "whenPresent (Some xs) f = Inr r"
    and f: "\<And>j x r. f j x = Inr r \<longleftrightarrow> (\<exists>a. x = Some a \<and> r = [g j a])"
    and ord: "\<And>j a. ord (g j a) = j"
  shows "\<exists>as ys. xs = map Some as \<and> r = Some ys \<and>
           ys = map (\<lambda>(j, a). g j a) (enumerate 0 as) \<and>
           map ord ys = [0 ..< length xs]"
proof -
  from whenPresent_Some_Inr [OF assms(1)] obtain ys where
    r: "r = Some ys" and run: "forEachE 0 xs f = Inr ys"
    by blast
  from forEachE_dollar [OF run f] obtain as where
    as: "xs = map Some as" and
    ys: "ys = map (\<lambda>(j, a). g j a) (enumerate 0 as)"
    by (auto simp: concat_rows)
  have "map ord ys = [0 ..< 0 + length as]"
    unfolding ys by (rule map_enumerate_ordinal) (rule ord)
  with r as ys show ?thesis by simp
qed

lemmas run_simps =
  bindE_def dollar_def first_of_def whenPresent_def trimE_def toLowerCaseE_def

subsection \<open>Ordinals of struct items, enum items and bitmap fields\<close>

lemma structItem_Inr:
  "structItem j x = Inr r \<longleftrightarrow> (\<exists>a. x = Some a \<and> r = [structItemRow j a])"
  by (auto simp: structItem_def bindE_Inr_iff dollar_Inr_iff)

lemma enumItem_Inr:
  "enumItem j x = Inr r \<longleftrightarrow> (\<exists>a. x = Some a \<and> r = [enumItemRow j a])"
  by (auto simp: enumItem_def bindE_Inr_iff dollar_Inr_iff)

lemma bitmapField_Inr:
  "bitmapField bc j x = Inr r \<longleftrightarrow> (\<exists>a. x = Some a \<and> r = [bitmapFieldRow bc j a])"
  by (auto simp: bitmapField_def bindE_Inr_iff dollar_Inr_iff)

text \<open>
  C9. A struct with N items in source order is prepared with the ordinals 0..N-1, each
  item's row built from the item at the same position; so are the items of an enum and the
  fields of a bitmap.
\<close>

theorem ordinals_follow_source_order:
  "(prepareStruct struct = Inr ps \<and> st_item struct = Some sitems \<longrightarrow>
      (\<exists>as its. sitems = map Some as \<and> ps_items ps = Some its \<and>
         its = map (\<lambda>(j, a). structItemRow j a) (enumerate 0 as) \<and>
         map si_ordinal its = [0 ..< length sitems])) \<and>
   (prepareEnum en = Inr pe \<and> en_item en = Some eitems \<longrightarrow>
      (\<exists>as its. eitems = map Some as \<and> pe_items pe = Some its \<and>
         its = map (\<lambda>(j, a). enumItemRow j a) (enumerate 0 as) \<and>
         map ei_ordinal its = [0 ..< length eitems])) \<and>
   (prepareBitmap bitCount bm = Inr pb \<and> bm_field bm = Some flds \<longrightarrow>
      (\<exists>as fs. flds = map Some as \<and> pb_fields pb = Some fs \<and>
         fs = map (\<lambda>(j, a). bitmapFieldRow bitCount j a) (enumerate 0 as) \<and>
         map bf_ordinal fs = [0 ..< length flds]))"
proof (intro conjI impI)
  assume "prepareStruct struct = Inr ps \<and> st_item struct = Some sitems"
  then have "whenPresent (Some sitems) structItem = Inr (ps_items ps)"
    by (auto simp: prepareStruct_def bindE_Inr_iff)
  from whenPresent_rows [OF this structItem_Inr, of si_ordinal]
  show "\<exists>as its. sitems = map Some as \<and> ps_items ps = Some its \<and>
         its = map (\<lambda>(j, a). structItemRow j a) (enumerate 0 as) \<and>
         map si_ordinal its = [0 ..< length sitems]"
    by (simp add: structItemRow_def)
next
  assume "prepareEnum en = Inr pe \<and> en_item en = Some eitems"
  then have "whenPresent (Some eitems) enumItem = Inr (pe_items pe)"
    by (auto simp: prepareEnum_def bindE_Inr_iff)
  from whenPresent_rows [OF this enumItem_Inr, of ei_ordinal]
  show "\<exists>as its. eitems = map Some as \<and> pe_items pe = Some its \<and>
         its = map (\<lambda>(j, a). enumItemRow j a) (enumerate 0 as) \<and>
         map ei_ordinal its = [0 ..< length eitems]"
    by (simp add: enumItemRow_def)
next
  assume "prepareBitmap bitCount bm = Inr pb \<and> bm_field bm = Some flds"
  then have "whenPresent (Some flds) (bitmapField bitCount) = Inr (pb_fields pb)"
    by (auto simp: prepareBitmap_def bindE_Inr_iff)
  from whenPresent_rows [OF this bitmapField_Inr, of bf_ordinal]
  show "\<exists>as fs. flds = map Some as \<and> pb_fields pb = Some fs \<and>
         fs = map (\<lambda>(j, a). bitmapFieldRow bitCount j a) (enumerate 0 as) \<and>
         map bf_ordinal fs = [0 ..< length flds]"
    by (simp add: bitmapFieldRow_def)
qed

theorem ordinals_follow_source_order_witness:
  "\<exists>ps its pe eits pb fs.
      prepareStruct ex_struct = Inr ps \<and> ps_items ps = Some its \<and>
      map si_ordinal its = [0, 1, 2] \<and>
      map si_name its = [Some ''manufacturerCode'', Some ''protocolId'', Some ''label''] \<and>
      prepareEnum ex_enum = Inr pe \<and> pe_items pe = Some eits \<and>
      map ei_ordinal eits = [0, 1] \<and>
      prepareBitmap (\<lambda>v. 1) ex_bitmap = Inr pb \<and> pb_fields pb = Some fs \<and>
      map bf_ordinal fs = [0, 1]"
proof -
  obtain ps where ps: "prepareStruct ex_struct = Inr ps"
    by (simp add: prepareStruct_def ex_struct_def structItem_def run_simps)
  obtain pe where pe: "prepareEnum ex_enum = Inr pe"
    by (simp add: prepareEnum_def ex_enum_def enumItem_def run_simps)
  obtain pb where pb: "prepareBitmap (\<lambda>v. 1) ex_bitmap = Inr pb"
    by (simp add: prepareBitmap_def ex_bitmap_def bitmapField_def run_simps)
  have s: "st_item ex_struct = Some (map Some (map the (the (st_item ex_struct))))"
    and e: "en_item ex_enum = Some (map Some (map the (the (en_item ex_enum))))"
    and b: "bm_field ex_bitmap = Some (map Some (map the (the (bm_field ex_bitmap))))"
    by (simp_all add: ex_struct_def ex_enum_def ex_bitmap_def)
  from ordinals_follow_source_order
    [of ex_struct ps "map Some (map the (the (st_item ex_struct)))"
        ex_enum pe "map Some (map the (the (en_item ex_enum)))"
        "\<lambda>v. 1" ex_bitmap pb "map Some (map the (the (bm_field ex_bitmap)))"]
    ps pe pb s e b
  show ?thesis
    by (auto simp: ex_struct_def ex_enum_def ex_bitmap_def structItemRow_def enumerate_eq_zip
        upt_rec enumItemRow_def bitmapFieldRow_def)
qed

subsection \<open>Commands and their arguments\<close>

lemma prepareCluster_Inr:
  assumes "prepareCluster cluster ext = Inr ret"
  shows "whenPresent (cl_command cluster) (prepareCommand (pcl_manufacturerCode ret)) =
           Inr (pcl_commands ret) \<and>
         whenPresent (cl_attribute cluster) (prepareAttribute (pcl_manufacturerCode ret)) =
           Inr (pcl_attributes ret)"
  using assms by (auto simp: prepareCluster_def bindE_Inr_iff)

lemma prepareCommand_Inr:
  "prepareCommand m j c = Inr r \<longleftrightarrow>
     (\<exists>a d description args. cmd_attrs c = Some a \<and> first_of (cmd_description c) = Inr d \<and>
        trimE d = Inr description \<and> whenPresent (cmd_arg c) prepareArg = Inr args \<and>
        r = [commandRow m a description args])"
  by (auto simp: prepareCommand_def bindE_Inr_iff dollar_Inr_iff)

text \<open>The prepared commands of a cluster stand at the positions of their elements.\<close>

lemma prepared_commands:
  assumes "prepareCluster cluster ext = Inr ret" and "cl_command cluster = Some cmds"
  shows "\<exists>pcs. pcl_commands ret = Some pcs \<and> length pcs = length cmds \<and>
           (\<forall>j < length cmds. \<exists>a description args.
              cmd_attrs (cmds ! j) = Some a \<and>
              whenPresent (cmd_arg (cmds ! j)) prepareArg = Inr args \<and>
              pcs ! j = commandRow (pcl_manufacturerCode ret) a description args)"
proof -
  let ?m = "pcl_manufacturerCode ret"
  from prepareCluster_Inr [OF assms(1)] assms(2)
  have "whenPresent (Some cmds) (prepareCommand ?m) = Inr (pcl_commands ret)"
    by simp
  from whenPresent_Some_Inr [OF this] obtain pcs where
    pcs: "pcl_commands ret = Some pcs" and
    run: "forEachE 0 cmds (prepareCommand ?m) = Inr pcs"
    by auto
  have "\<And>j x r. prepareCommand ?m j x = Inr r \<Longrightarrow> \<exists>y. r = [y]"
    by (auto simp: prepareCommand_Inr)
  from forEachE_singletons [OF run this] have
    len: "length pcs = length cmds" and
    each: "\<forall>j < length cmds. prepareCommand ?m (0 + j) (cmds ! j) = Inr [pcs ! j]"
    by auto
  from each have "\<forall>j < length cmds. \<exists>a description args.
              cmd_attrs (cmds ! j) = Some a \<and>
              whenPresent (cmd_arg (cmds ! j)) prepareArg = Inr args \<and>
              pcs ! j = commandRow ?m a description args"
    by (simp add: prepareCommand_Inr) blast
  with pcs len show ?thesis by blast
qed

lemma prepareArg_Inr:
  "prepareArg j x = Inr r \<longleftrightarrow>
     (\<exists>a. x = Some a \<and> r = (if aa_removedIn a = None then [argRow j a] else []))"
  by (auto simp: prepareArg_def bindE_Inr_iff dollar_Inr_iff)

text \<open>The prepared arguments of a command: the rows of the arguments without
  \<^verbatim>\<open>removedIn\<close>, each with the index of its element.\<close>

lemma prepared_args:
  assumes "whenPresent (Some xs) prepareArg = Inr args"
  shows "\<exists>as. xs = map Some as \<and>
           args = Some (map (\<lambda>(i, a). argRow i a)
                          (filter (\<lambda>(i, a). aa_removedIn a = None) (enumerate 0 as)))"
proof -
  from whenPresent_Some_Inr [OF assms] obtain pas where
    args: "args = Some pas" and run: "forEachE 0 xs prepareArg = Inr pas"
    by blast
  from forEachE_dollar [OF run prepareArg_Inr] obtain as where
    "xs = map Some as" and
    "pas = map (\<lambda>(i, a). argRow i a)
             (filter (\<lambda>(i, a). aa_removedIn a = None) (enumerate 0 as))"
    by (auto simp: concat_kept)
  with args show ?thesis by blast
qed

lemma command_args:
  assumes "prepareCluster cluster ext = Inr ret" and "cl_command cluster = Some cmds"
    and "j < length cmds" and "cmd_arg (cmds ! j) = Some xs"
  shows "\<exists>pcs as. pcl_commands ret = Some pcs \<and> length pcs = length cmds \<and>
           xs = map Some as \<and>
           pc_args (pcs ! j) = Some (map (\<lambda>(i, a). argRow i a)
                          (filter (\<lambda>(i, a). aa_removedIn a = None) (enumerate 0 as)))"
proof -
  from prepared_commands [OF assms(1,2)] assms(3,4) obtain pcs a description args where
    pcs: "pcl_commands ret = Some pcs" "length pcs = length cmds" and
    args: "whenPresent (Some xs) prepareArg = Inr args" and
    row: "pcs ! j = commandRow (pcl_manufacturerCode ret) a description args"
    by fastforce
  from prepared_args [OF args] obtain as where
    "xs = map Some as" and
    "args = Some (map (\<lambda>(i, a). argRow i a)
                          (filter (\<lambda>(i, a). aa_removedIn a = None) (enumerate 0 as)))"
    by blast
  with pcs row show ?thesis by (auto simp: commandRow_def)
qed

lemmas ex_simps =
  ex_cluster_def ex_command_def ex_attribute_def ex_args_def ex_arg_def

lemmas prepare_simps =
  prepareCluster_def clusterHeader_def prepareCommand_def prepareArg_def prepareAttribute_def
  Let_def

lemma parse_0x1049: "js_parseInt (Some ''0x1049'') None = JNum 4169"
  by (simp add: js_parseInt_def Let_def js_isSpace_def hasHexPrefix_def digitVal_def)

lemma parse_0x1002: "js_parseInt (Some ''0x1002'') None = JNum 4098"
  by (simp add: js_parseInt_def Let_def js_isSpace_def hasHexPrefix_def digitVal_def)

lemma ex_cluster_prepared:
  obtains ret where "prepareCluster ex_cluster False = Inr ret"
    and "pcl_manufacturerCode ret = JNum 4169"
  by (simp add: prepare_simps ex_simps run_simps parse_0x1049)

lemma ex_cluster_commands:
  "cl_command ex_cluster = Some [ex_command ''0x00'' None (Some (map Some ex_args)),
                          ex_command ''0x01'' (Some ''0x1002'') None]"
  by (simp add: ex_cluster_def)

text \<open>
  C4. In a prepared cluster, the arguments of every command are the rows of exactly those
  argument elements that carry no \<^verbatim>\<open>removedIn\<close>: an argument without the marker has
  its row in the list, an argument with the marker has none, and no row of the list carries
  the marker.
\<close>

theorem removed_args_are_not_prepared:
  "prepareCluster cluster ext = Inr ret \<and> cl_command cluster = Some cmds \<and>
   j < length cmds \<and> cmd_arg (cmds ! j) = Some xs \<longrightarrow>
     (\<exists>pcs pas as. pcl_commands ret = Some pcs \<and> length pcs = length cmds \<and>
        pc_args (pcs ! j) = Some pas \<and> xs = map Some as \<and>
        pas = map (\<lambda>(i, a). argRow i a)
                (filter (\<lambda>(i, a). aa_removedIn a = None) (enumerate 0 as)) \<and>
        (\<forall>i < length as. aa_removedIn (as ! i) = None \<longrightarrow> argRow i (as ! i) \<in> set pas) \<and>
        (\<forall>i < length as. aa_removedIn (as ! i) \<noteq> None \<longrightarrow>
            (\<forall>pa \<in> set pas. pa_ordinal pa \<noteq> i)) \<and>
        (\<forall>pa \<in> set pas. pa_removedIn pa = None))"
proof (intro impI, elim conjE)
  assume "prepareCluster cluster ext = Inr ret" "cl_command cluster = Some cmds"
    "j < length cmds" "cmd_arg (cmds ! j) = Some xs"
  from command_args [OF this] obtain pcs as where
    pcs: "pcl_commands ret = Some pcs" "length pcs = length cmds" and
    as: "xs = map Some as" and
    args: "pc_args (pcs ! j) = Some (map (\<lambda>(i, a). argRow i a)
                          (filter (\<lambda>(i, a). aa_removedIn a = None) (enumerate 0 as)))"
    by blast
  define pas where "pas = map (\<lambda>(i, a). argRow i a)
                          (filter (\<lambda>(i, a). aa_removedIn a = None) (enumerate 0 as))"
  have incl: "\<forall>i < length as. aa_removedIn (as ! i) = None \<longrightarrow> argRow i (as ! i) \<in> set pas"
  proof (intro allI impI)
    fix i assume "i < length as" "aa_removedIn (as ! i) = None"
    then have "(i, as ! i) \<in> set (filter (\<lambda>(i, a). aa_removedIn a = None) (enumerate 0 as))"
      by (simp add: in_set_enumerate_eq)
    then show "argRow i (as ! i) \<in> set pas"
      unfolding pas_def by (force simp del: set_filter)
  qed
  have excl: "\<forall>i < length as. aa_removedIn (as ! i) \<noteq> None \<longrightarrow>
            (\<forall>pa \<in> set pas. pa_ordinal pa \<noteq> i)"
    unfolding pas_def by (auto simp: in_set_enumerate_eq argRow_def)
  have rem: "\<forall>pa \<in> set pas. pa_removedIn pa = None"
    unfolding pas_def by (auto simp: argRow_def)
  from pcs as args incl excl rem show "\<exists>pcs pas as. pcl_commands ret = Some pcs \<and> length pcs = length cmds \<and>
        pc_args (pcs ! j) = Some pas \<and> xs = map Some as \<and>
        pas = map (\<lambda>(i, a). argRow i a)
                (filter (\<lambda>(i, a). aa_removedIn a = None) (enumerate 0 as)) \<and>
        (\<forall>i < length as. aa_removedIn (as ! i) = None \<longrightarrow> argRow i (as ! i) \<in> set pas) \<and>
        (\<forall>i < length as. aa_removedIn (as ! i) \<noteq> None \<longrightarrow>
            (\<forall>pa \<in> set pas. pa_ordinal pa \<noteq> i)) \<and>
        (\<forall>pa \<in> set pas. pa_removedIn pa = None)"
    unfolding pas_def by blast
qed

theorem removed_args_are_not_prepared_witness:
  "\<exists>ret pcs pas. prepareCluster ex_cluster False = Inr ret \<and>
      pcl_commands ret = Some pcs \<and> pc_args (pcs ! 0) = Some pas \<and>
      map pa_name pas = [Some ''level'', Some ''transitionTime'']"
proof -
  obtain ret where ret: "prepareCluster ex_cluster False = Inr ret"
    by (rule ex_cluster_prepared)
  from removed_args_are_not_prepared
    [of ex_cluster False ret
        "[ex_command ''0x00'' None (Some (map Some ex_args)),
          ex_command ''0x01'' (Some ''0x1002'') None]" 0 "map Some ex_args"]
    ret ex_cluster_commands
  obtain pcs pas as where
    "pcl_commands ret = Some pcs" "pc_args (pcs ! 0) = Some pas"
    "map Some ex_args = map Some as"
    "pas = map (\<lambda>(i, a). argRow i a)
                (filter (\<lambda>(i, a). aa_removedIn a = None) (enumerate 0 as))"
    by (auto simp: ex_command_def)
  moreover from this have "as = ex_args"
    by (simp add: inj_map_eq_map)
  ultimately show ?thesis
    using ret by (simp add: ex_args_def ex_arg_def argRow_def)
qed

lemma kept_indices:
  "map fst (filter (\<lambda>(i, a). P a) (enumerate 0 as)) =
     filter (\<lambda>i. P (as ! i)) [0 ..< length as]"
proof (induction as rule: rev_induct)
  case Nil
  then show ?case by simp
next
  case (snoc a as)
  have "filter (\<lambda>i. P ((as @ [a]) ! i)) [0 ..< length as] =
        filter (\<lambda>i. P (as ! i)) [0 ..< length as]"
    by (rule filter_cong) (simp_all add: nth_append)
  with snoc show ?case
    by (simp add: enumerate_append_eq)
qed

lemma gap_breaks_upt:
  assumes "k < l" and "l < n" and "\<not> P k" and "P l"
  shows "filter P [0 ..< n] \<noteq> [0 ..< m]"
proof
  assume eq: "filter P [0 ..< n] = [0 ..< m]"
  from assms have "l \<in> set (filter P [0 ..< n])" by simp
  with eq have "l < m" by simp
  with assms(1) have "k \<in> set [0 ..< m]" by simp
  with eq have "k \<in> set (filter P [0 ..< n])" by simp
  with assms(3) show False by simp
qed

text \<open>
  C10. The ordinals of a command's prepared arguments are the source positions of the
  argument elements without \<^verbatim>\<open>removedIn\<close>; where an argument with the marker stands before
  one without, they are not the sequence 0..k-1.
\<close>

theorem arg_ordinals_keep_source_positions:
  "prepareCluster cluster ext = Inr ret \<and> cl_command cluster = Some cmds \<and>
   j < length cmds \<and> cmd_arg (cmds ! j) = Some xs \<longrightarrow>
     (\<exists>pcs pas as. pcl_commands ret = Some pcs \<and> pc_args (pcs ! j) = Some pas \<and>
        xs = map Some as \<and>
        map pa_ordinal pas = filter (\<lambda>i. aa_removedIn (as ! i) = None) [0 ..< length as] \<and>
        ((\<exists>k l. k < l \<and> l < length as \<and> aa_removedIn (as ! k) \<noteq> None \<and>
                 aa_removedIn (as ! l) = None) \<longrightarrow>
           map pa_ordinal pas \<noteq> [0 ..< length pas]))"
proof (intro impI, elim conjE)
  assume "prepareCluster cluster ext = Inr ret" "cl_command cluster = Some cmds"
    "j < length cmds" "cmd_arg (cmds ! j) = Some xs"
  from command_args [OF this] obtain pcs as where
    pcs: "pcl_commands ret = Some pcs" and
    as: "xs = map Some as" and
    args: "pc_args (pcs ! j) = Some (map (\<lambda>(i, a). argRow i a)
                          (filter (\<lambda>(i, a). aa_removedIn a = None) (enumerate 0 as)))"
    by blast
  define pas where "pas = map (\<lambda>(i, a). argRow i a)
                          (filter (\<lambda>(i, a). aa_removedIn a = None) (enumerate 0 as))"
  have "map pa_ordinal pas =
          map fst (filter (\<lambda>(i, a). aa_removedIn a = None) (enumerate 0 as))"
    unfolding pas_def by (auto simp: argRow_def)
  then have ords: "map pa_ordinal pas =
      filter (\<lambda>i. aa_removedIn (as ! i) = None) [0 ..< length as]"
    by (simp add: kept_indices)
  have gap: "(\<exists>k l. k < l \<and> l < length as \<and> aa_removedIn (as ! k) \<noteq> None \<and>
                 aa_removedIn (as ! l) = None) \<longrightarrow>
           map pa_ordinal pas \<noteq> [0 ..< length pas]"
  proof (intro impI, elim exE conjE)
    fix k l
    assume "k < l" "l < length as" "aa_removedIn (as ! k) \<noteq> None"
      "aa_removedIn (as ! l) = None"
    then have "filter (\<lambda>i. aa_removedIn (as ! i) = None) [0 ..< length as] \<noteq>
        [0 ..< length pas]"
      by (intro gap_breaks_upt [of k l]) simp_all
    then show "map pa_ordinal pas \<noteq> [0 ..< length pas]"
      by (simp add: ords)
  qed
  from pcs as args ords gap
  show "\<exists>pcs pas as. pcl_commands ret = Some pcs \<and> pc_args (pcs ! j) = Some pas \<and>
        xs = map Some as \<and>
        map pa_ordinal pas = filter (\<lambda>i. aa_removedIn (as ! i) = None) [0 ..< length as] \<and>
        ((\<exists>k l. k < l \<and> l < length as \<and> aa_removedIn (as ! k) \<noteq> None \<and>
                 aa_removedIn (as ! l) = None) \<longrightarrow>
           map pa_ordinal pas \<noteq> [0 ..< length pas])"
    unfolding pas_def by blast
qed

theorem arg_ordinals_keep_source_positions_witness:
  "\<exists>ret pcs pas. prepareCluster ex_cluster False = Inr ret \<and>
      pcl_commands ret = Some pcs \<and> pc_args (pcs ! 0) = Some pas \<and>
      map pa_ordinal pas = [0, 2] \<and> map pa_ordinal pas \<noteq> [0 ..< length pas]"
proof -
  obtain ret where ret: "prepareCluster ex_cluster False = Inr ret"
    by (rule ex_cluster_prepared)
  from arg_ordinals_keep_source_positions
    [of ex_cluster False ret
        "[ex_command ''0x00'' None (Some (map Some ex_args)),
          ex_command ''0x01'' (Some ''0x1002'') None]" 0 "map Some ex_args"]
    ret ex_cluster_commands
  obtain pcs pas as where
    got: "pcl_commands ret = Some pcs" "pc_args (pcs ! 0) = Some pas"
    "map Some ex_args = map Some as"
    "map pa_ordinal pas = filter (\<lambda>i. aa_removedIn (as ! i) = None) [0 ..< length as]"
    by (auto simp: ex_command_def)
  then have as: "as = ex_args"
    by (simp add: inj_map_eq_map)
  have "map pa_ordinal pas = [0, 2]"
    using got(4) by (simp add: as ex_args_def ex_arg_def upt_rec)
  moreover from this have "length pas = 2"
    by (metis length_map length_Cons list.size(3) numeral_2_eq_2)
  ultimately show ?thesis
    using ret got(1,2) by (simp add: upt_rec)
qed

subsection \<open>Manufacturer codes\<close>

lemma prepareAttribute_Inr:
  "prepareAttribute m j x = Inr r \<longleftrightarrow>
     (\<exists>a ty. att_attrs x = Some a \<and> toLowerCaseE (ata_type a) = Inr ty \<and>
        r = (if ata_removedIn a = None then [attributeRow m (att_text x) ty a] else []))"
  by (auto simp: prepareAttribute_def bindE_Inr_iff dollar_Inr_iff)

lemma attribute_manufacturer_codes:
  "forEachE i atts (prepareAttribute m) = Inr pats \<Longrightarrow>
     \<exists>as. map att_attrs atts = map Some as \<and>
          map pat_manufacturerCode pats =
            map (\<lambda>a. manufacturerCodeOf m (ata_manufacturerCode a))
              (filter (\<lambda>a. ata_removedIn a = None) as)"
proof (induction atts arbitrary: i pats)
  case Nil
  then show ?case by simp
next
  case (Cons x atts)
  from Cons.prems obtain r rest where
    r: "prepareAttribute m i x = Inr r" and
    rest: "forEachE (Suc i) atts (prepareAttribute m) = Inr rest" and
    pats: "pats = r @ rest"
    by (auto simp: bindE_Inr_iff)
  from r obtain a ty where
    a: "att_attrs x = Some a" and
    row: "r = (if ata_removedIn a = None then [attributeRow m (att_text x) ty a] else [])"
    by (auto simp: prepareAttribute_Inr)
  from Cons.IH [OF rest] obtain as where
    as: "map att_attrs atts = map Some as" and
    codes: "map pat_manufacturerCode rest =
            map (\<lambda>a. manufacturerCodeOf m (ata_manufacturerCode a))
              (filter (\<lambda>a. ata_removedIn a = None) as)"
    by blast
  have "map att_attrs (x # atts) = map Some (a # as)"
    using a as by simp
  moreover have "map pat_manufacturerCode pats =
            map (\<lambda>a. manufacturerCodeOf m (ata_manufacturerCode a))
              (filter (\<lambda>a. ata_removedIn a = None) (a # as))"
    using pats row codes by (simp add: attributeRow_def)
  ultimately show ?case by blast
qed

lemma clusterHeader_manufacturerCode:
  assumes "clusterHeader cluster ext = Inr hdr"
  shows "pcl_manufacturerCode hdr =
           (if ext then JUndefined
            else case cl_attrs cluster of
                   None \<Rightarrow> JUndefined
                 | Some a \<Rightarrow>
                     (case cla_manufacturerCode a of
                        None \<Rightarrow> JNull
                      | Some m \<Rightarrow> js_parseInt (Some m) None))"
proof (cases ext)
  case True
  with assms show ?thesis
    by (auto simp: clusterHeader_def Let_def split: option.splits)
next
  case False
  show ?thesis
  proof (cases "cl_attrs cluster")
    case None
    with assms False show ?thesis
      by (auto simp: clusterHeader_def Let_def bindE_Inr_iff)
  next
    case (Some a)
    show ?thesis
    proof (cases "cla_manufacturerCode a")
      case None
      with assms False Some show ?thesis
        by (auto simp: clusterHeader_def Let_def bindE_Inr_iff)
    next
      case (Some m)
      with assms False \<open>cl_attrs cluster = Some a\<close> show ?thesis
        by (auto simp: clusterHeader_def Let_def bindE_Inr_iff)
    qed
  qed
qed

lemma prepareCluster_manufacturerCode:
  assumes "prepareCluster cluster ext = Inr ret"
  shows "pcl_manufacturerCode ret =
           (if ext then JUndefined
            else case cl_attrs cluster of
                   None \<Rightarrow> JUndefined
                 | Some a \<Rightarrow>
                     (case cla_manufacturerCode a of
                        None \<Rightarrow> JNull
                      | Some m \<Rightarrow> js_parseInt (Some m) None))"
proof -
  from assms obtain hdr where "clusterHeader cluster ext = Inr hdr"
    and "pcl_manufacturerCode ret = pcl_manufacturerCode hdr"
    by (auto simp: prepareCluster_def bindE_Inr_iff)
  with clusterHeader_manufacturerCode [of cluster ext hdr] show ?thesis by simp
qed

text \<open>
  C5. In a prepared cluster, the manufacturer code of a command or of an attribute that
  sets none is the manufacturer code of the prepared cluster, and the code of one that
  sets its own is that attribute parsed as an integer. The prepared cluster's code is the
  cluster element's own attribute, parsed (\<^verbatim>\<open>null\<close> when the element has attributes but
  not this one); it is never set for a cluster extension or a global element.
\<close>

theorem manufacturer_code_is_inherited:
  "prepareCluster cluster ext = Inr ret \<longrightarrow>
     (\<forall>cmds. cl_command cluster = Some cmds \<longrightarrow>
        (\<exists>pcs. pcl_commands ret = Some pcs \<and> length pcs = length cmds \<and>
           (\<forall>j < length cmds. \<exists>a. cmd_attrs (cmds ! j) = Some a \<and>
              pc_manufacturerCode (pcs ! j) =
                (case ca_manufacturerCode a of
                   None \<Rightarrow> pcl_manufacturerCode ret
                 | Some m \<Rightarrow> js_parseInt (Some m) None)))) \<and>
     (\<forall>atts. cl_attribute cluster = Some atts \<longrightarrow>
        (\<exists>pats as. pcl_attributes ret = Some pats \<and> map att_attrs atts = map Some as \<and>
           map pat_manufacturerCode pats =
             map (\<lambda>a. case ata_manufacturerCode a of
                        None \<Rightarrow> pcl_manufacturerCode ret
                      | Some m \<Rightarrow> js_parseInt (Some m) None)
               (filter (\<lambda>a. ata_removedIn a = None) as))) \<and>
     pcl_manufacturerCode ret =
       (if ext then JUndefined
        else case cl_attrs cluster of
               None \<Rightarrow> JUndefined
             | Some a \<Rightarrow>
                 (case cla_manufacturerCode a of
                    None \<Rightarrow> JNull
                  | Some m \<Rightarrow> js_parseInt (Some m) None))"
proof (intro impI conjI allI)
  fix cmds
  assume ok: "prepareCluster cluster ext = Inr ret" and "cl_command cluster = Some cmds"
  from prepared_commands [OF this] obtain pcs where
    pcs: "pcl_commands ret = Some pcs" "length pcs = length cmds" and
    each: "\<forall>j < length cmds. \<exists>a description args.
              cmd_attrs (cmds ! j) = Some a \<and>
              whenPresent (cmd_arg (cmds ! j)) prepareArg = Inr args \<and>
              pcs ! j = commandRow (pcl_manufacturerCode ret) a description args"
    by blast
  have "\<forall>j < length cmds. \<exists>a. cmd_attrs (cmds ! j) = Some a \<and>
              pc_manufacturerCode (pcs ! j) =
                (case ca_manufacturerCode a of
                   None \<Rightarrow> pcl_manufacturerCode ret
                 | Some m \<Rightarrow> js_parseInt (Some m) None)"
  proof (intro allI impI)
    fix j assume "j < length cmds"
    with each obtain a description args where
      "cmd_attrs (cmds ! j) = Some a"
      "pcs ! j = commandRow (pcl_manufacturerCode ret) a description args"
      by blast
    then show "\<exists>a. cmd_attrs (cmds ! j) = Some a \<and>
              pc_manufacturerCode (pcs ! j) =
                (case ca_manufacturerCode a of
                   None \<Rightarrow> pcl_manufacturerCode ret
                 | Some m \<Rightarrow> js_parseInt (Some m) None)"
      by (simp add: commandRow_def manufacturerCodeOf_def)
  qed
  with pcs show "\<exists>pcs. pcl_commands ret = Some pcs \<and> length pcs = length cmds \<and>
           (\<forall>j < length cmds. \<exists>a. cmd_attrs (cmds ! j) = Some a \<and>
              pc_manufacturerCode (pcs ! j) =
                (case ca_manufacturerCode a of
                   None \<Rightarrow> pcl_manufacturerCode ret
                 | Some m \<Rightarrow> js_parseInt (Some m) None))"
    by blast
next
  fix atts
  assume ok: "prepareCluster cluster ext = Inr ret" and atts: "cl_attribute cluster = Some atts"
  from prepareCluster_Inr [OF ok] atts
  have "whenPresent (Some atts) (prepareAttribute (pcl_manufacturerCode ret)) =
           Inr (pcl_attributes ret)"
    by simp
  from whenPresent_Some_Inr [OF this] obtain pats where
    pats: "pcl_attributes ret = Some pats" and
    run: "forEachE 0 atts (prepareAttribute (pcl_manufacturerCode ret)) = Inr pats"
    by auto
  from attribute_manufacturer_codes [OF run] pats
  show "\<exists>pats as. pcl_attributes ret = Some pats \<and> map att_attrs atts = map Some as \<and>
           map pat_manufacturerCode pats =
             map (\<lambda>a. case ata_manufacturerCode a of
                        None \<Rightarrow> pcl_manufacturerCode ret
                      | Some m \<Rightarrow> js_parseInt (Some m) None)
               (filter (\<lambda>a. ata_removedIn a = None) as)"
    by (simp add: manufacturerCodeOf_def)
next
  assume "prepareCluster cluster ext = Inr ret"
  then show "pcl_manufacturerCode ret =
       (if ext then JUndefined
        else case cl_attrs cluster of
               None \<Rightarrow> JUndefined
             | Some a \<Rightarrow>
                 (case cla_manufacturerCode a of
                    None \<Rightarrow> JNull
                  | Some m \<Rightarrow> js_parseInt (Some m) None))"
    by (rule prepareCluster_manufacturerCode)
qed

theorem manufacturer_code_is_inherited_witness:
  "\<exists>ret pcs pats. prepareCluster ex_cluster False = Inr ret \<and>
      pcl_manufacturerCode ret = JNum 4169 \<and>
      pcl_commands ret = Some pcs \<and> map pc_manufacturerCode pcs = [JNum 4169, JNum 4098] \<and>
      pcl_attributes ret = Some pats \<and>
      map pat_manufacturerCode pats = [JNum 4169, JNum 4098]"
proof -
  obtain ret where ret: "prepareCluster ex_cluster False = Inr ret"
    and m: "pcl_manufacturerCode ret = JNum 4169"
    by (rule ex_cluster_prepared)
  let ?cmds = "[ex_command ''0x00'' None (Some (map Some ex_args)),
                ex_command ''0x01'' (Some ''0x1002'') None]"
  let ?atts = "[ex_attribute ''0x0000'' None None,
                ex_attribute ''0x0001'' (Some ''0x1002'') None,
                ex_attribute ''0x0002'' None (Some ''zcl-7.0'')]"
  have atts: "cl_attribute ex_cluster = Some ?atts"
    by (simp add: ex_cluster_def)
  from manufacturer_code_is_inherited [of ex_cluster False ret] ret
  have cs: "\<exists>pcs. pcl_commands ret = Some pcs \<and> length pcs = length ?cmds \<and>
           (\<forall>j < length ?cmds. \<exists>a. cmd_attrs (?cmds ! j) = Some a \<and>
              pc_manufacturerCode (pcs ! j) =
                (case ca_manufacturerCode a of
                   None \<Rightarrow> pcl_manufacturerCode ret
                 | Some m \<Rightarrow> js_parseInt (Some m) None))"
    and ats: "\<exists>pats as. pcl_attributes ret = Some pats \<and> map att_attrs ?atts = map Some as \<and>
           map pat_manufacturerCode pats =
             map (\<lambda>a. case ata_manufacturerCode a of
                        None \<Rightarrow> pcl_manufacturerCode ret
                      | Some m \<Rightarrow> js_parseInt (Some m) None)
               (filter (\<lambda>a. ata_removedIn a = None) as)"
    using ex_cluster_commands atts by blast+
  from cs obtain pcs where
    pcs: "pcl_commands ret = Some pcs" "length pcs = 2" and
    each: "\<forall>j < 2. \<exists>a. cmd_attrs (?cmds ! j) = Some a \<and>
              pc_manufacturerCode (pcs ! j) =
                (case ca_manufacturerCode a of
                   None \<Rightarrow> pcl_manufacturerCode ret
                 | Some m \<Rightarrow> js_parseInt (Some m) None)"
    by auto
  from each [rule_format, of 0] each [rule_format, of 1]
  have "pc_manufacturerCode (pcs ! 0) = JNum 4169" "pc_manufacturerCode (pcs ! 1) = JNum 4098"
    by (auto simp: ex_command_def m parse_0x1002)
  with pcs(2) have codes: "map pc_manufacturerCode pcs = [JNum 4169, JNum 4098]"
    by (intro nth_equalityI) (auto simp: less_Suc_eq numeral_2_eq_2)
  from ats obtain pats as where
    pats: "pcl_attributes ret = Some pats" and
    as: "map att_attrs ?atts = map Some as" and
    pc: "map pat_manufacturerCode pats =
             map (\<lambda>a. case ata_manufacturerCode a of
                        None \<Rightarrow> pcl_manufacturerCode ret
                      | Some m \<Rightarrow> js_parseInt (Some m) None)
               (filter (\<lambda>a. ata_removedIn a = None) as)"
    by blast
  from as have "as = map (the \<circ> att_attrs) ?atts"
    by (auto simp: ex_attribute_def)
  with pc have "map pat_manufacturerCode pats = [JNum 4169, JNum 4098]"
    by (simp add: ex_attribute_def m parse_0x1002)
  with ret m pcs(1) codes pats show ?thesis by simp
qed

subsection \<open>Global attributes\<close>






subsection \<open>Formatting a value as bytes\<close>

lemma parse_6: "js_parseInt (Some ''6'') None = JNum 6"
  by (simp add: js_parseInt_def Let_def js_isSpace_def hasHexPrefix_def digitVal_def)

text \<open>
  C8. With \<^verbatim>\<open>int8u\<close> a recognized type of width 1 and \<^verbatim>\<open>unknown\<close> not recognized,
  \<^verbatim>\<open>bytesForValue("6", "int8u")\<close> is \<^verbatim>\<open>0x06\<close>, \<^verbatim>\<open>bytesForValue(null, "unknown")\<close> is
  \<^verbatim>\<open>0x00\<close> and \<^verbatim>\<open>bytesForValue("9", "unknown")\<close> is \<^verbatim>\<open>0x39, 0x00\<close>.
\<close>

theorem bytesForValue_examples:
  "width ''int8u'' = Some 1 \<and> width ''unknown'' = None \<longrightarrow>
     bytesForValue width (Some ''6'') ''int8u'' = ''0x06'' \<and>
     bytesForValue width None ''unknown'' = ''0x00'' \<and>
     bytesForValue width (Some ''9'') ''unknown'' = ''0x39, 0x00''"
  by (simp add: bytesForValue_def parse_6 fixedWidthBytes_def charCodes_def hexByte_def
      upperDigit_def char_of_eq_iff)

theorem bytesForValue_examples_witness:
  "bytesForValue (\<lambda>t. if t = ''int8u'' then Some 1 else None) (Some ''6'') ''int8u'' = ''0x06'' \<and>
   bytesForValue (\<lambda>t. if t = ''int8u'' then Some 1 else None) None ''unknown'' = ''0x00'' \<and>
   bytesForValue (\<lambda>t. if t = ''int8u'' then Some 1 else None) (Some ''9'') ''unknown'' =
     ''0x39, 0x00''"
  using bytesForValue_examples [of "\<lambda>t. if t = ''int8u'' then Some 1 else None"]
  by simp

subsection \<open>Option defaults\<close>

lemma promiseAll_Inl:
  "Inl e \<in> set ps \<Longrightarrow> \<exists>e'. promiseAll ps = Inl e'"
proof (induction ps)
  case Nil
  then show ?case by simp
next
  case (Cons p ps)
  show ?case
  proof (cases p)
    case (Inl a)
    then show ?thesis by simp
  next
    case (Inr x)
    with Cons obtain e' where "promiseAll ps = Inl e'" by auto
    with Inr show ?thesis by (simp add: bindE_def)
  qed
qed

lemma promiseAll_Inr:
  "promiseAll ps = Inr xs \<longleftrightarrow> ps = map Inr xs"
proof (induction ps arbitrary: xs)
  case Nil
  then show ?case by auto
next
  case (Cons p ps)
  show ?case
  proof (cases p)
    case (Inl a)
    then show ?thesis by auto
  next
    case (Inr x)
    with Cons show ?thesis
      by (cases xs) (auto simp: bindE_Inr_iff)
  qed
qed

lemma hex_4098: "js_toString 16 (JNum 4098) = ''1002''"
  by code_simp

text \<open>
  C7. A declared text default is resolved by the exact lookup first; when that finds no
  row and the value is a number, by the lookup of \<^verbatim>\<open>0x\<close> followed by the number in
  hexadecimal; the row found is the one whose id is inserted as the default. When neither
  finds a row, the default's promise is rejected with the thrown message, and so are
  \<^verbatim>\<open>parseTextDefaults\<close> and \<^verbatim>\<open>parseDefaults\<close> for every object that holds the entry.
\<close>

theorem unmatched_text_default_is_fatal:
  "(selectSpecificOptionValue q p cat txt = Inr (Some v) \<longrightarrow>
      textDefault q p (cat, txt) =
        bindE (insertDefaultOptionValue q p cat (or_id v)) (\<lambda>u. Inr (cat, or_id v))) \<and>
   (selectSpecificOptionValue q p cat txt = Inr None \<and> isNumber txt \<and>
    selectSpecificOptionValue q p cat (JStr (''0x'' @ js_toString 16 txt)) = Inr (Some v) \<longrightarrow>
      textDefault q p (cat, txt) =
        bindE (insertDefaultOptionValue q p cat (or_id v)) (\<lambda>u. Inr (cat, or_id v))) \<and>
   (selectSpecificOptionValue q p cat txt = Inr None \<and>
    (isNumber txt \<longrightarrow>
       selectSpecificOptionValue q p cat (JStr (''0x'' @ js_toString 16 txt)) = Inr None) \<longrightarrow>
      (\<exists>msg. textDefault q p (cat, txt) = Inl (Thrown msg)) \<and>
      (\<forall>entries. (cat, txt) \<in> set entries \<longrightarrow>
         (\<exists>e. parseTextDefaults q p (Some entries) = Inl e) \<and>
         (\<forall>b. \<exists>e. parseDefaults q p \<lparr> md_text = Some entries, md_bool = b \<rparr> = Inl e)))"
proof (intro conjI impI)
  assume "selectSpecificOptionValue q p cat txt = Inr (Some v)"
  then show "textDefault q p (cat, txt) =
        bindE (insertDefaultOptionValue q p cat (or_id v)) (\<lambda>u. Inr (cat, or_id v))"
    by (simp add: textDefault_def bindE_def)
next
  assume "selectSpecificOptionValue q p cat txt = Inr None \<and> isNumber txt \<and>
    selectSpecificOptionValue q p cat (JStr (''0x'' @ js_toString 16 txt)) = Inr (Some v)"
  then show "textDefault q p (cat, txt) =
        bindE (insertDefaultOptionValue q p cat (or_id v)) (\<lambda>u. Inr (cat, or_id v))"
    by (simp add: textDefault_def bindE_def)
next
  assume miss: "selectSpecificOptionValue q p cat txt = Inr None \<and>
    (isNumber txt \<longrightarrow>
       selectSpecificOptionValue q p cat (JStr (''0x'' @ js_toString 16 txt)) = Inr None)"
  then show thrown: "\<exists>msg. textDefault q p (cat, txt) = Inl (Thrown msg)"
    by (cases "isNumber txt") (simp_all add: textDefault_def bindE_def)
  show "\<forall>entries. (cat, txt) \<in> set entries \<longrightarrow>
         (\<exists>e. parseTextDefaults q p (Some entries) = Inl e) \<and>
         (\<forall>b. \<exists>e. parseDefaults q p \<lparr> md_text = Some entries, md_bool = b \<rparr> = Inl e)"
  proof (intro allI impI)
    fix entries assume "(cat, txt) \<in> set entries"
    with thrown obtain msg where "Inl (Thrown msg) \<in> set (map (textDefault q p) entries)"
      by force
    from promiseAll_Inl [OF this] obtain e where
      e: "parseTextDefaults q p (Some entries) = Inl e"
      by (auto simp: parseTextDefaults_def)
    then have "\<forall>b. \<exists>e. parseDefaults q p \<lparr> md_text = Some entries, md_bool = b \<rparr> = Inl e"
      by (simp add: parseDefaults_def)
    with e show "(\<exists>e. parseTextDefaults q p (Some entries) = Inl e) \<and>
         (\<forall>b. \<exists>e. parseDefaults q p \<lparr> md_text = Some entries, md_bool = b \<rparr> = Inl e)"
      by blast
  qed
qed

theorem unmatched_text_default_is_fatal_witness:
  "textDefault ex_queries 1 (''manufacturerCodes'', JNum 4098) = Inr (''manufacturerCodes'', 7) \<and>
   (\<exists>msg. textDefault ex_queries 1 (''profileCodes'', JStr ''0x0104'') = Inl (Thrown msg)) \<and>
   (\<exists>e. parseTextDefaults ex_queries 1
          (Some [(''manufacturerCodes'', JNum 4098), (''profileCodes'', JStr ''0x0104'')]) =
        Inl e)"
  using
    unmatched_text_default_is_fatal
      [of ex_queries 1 "''manufacturerCodes''" "JNum 4098" "\<lparr> or_id = 7, or_code = ''0x1002'' \<rparr>"]
    unmatched_text_default_is_fatal
      [of ex_queries 1 "''profileCodes''" "JStr ''0x0104''"]
  by (simp add: ex_queries_def isNumber_def hex_4098 bindE_def)

subsection \<open>Loading a single file\<close>

lemmas single_file_simps =
  loadIndividualSilabsFile_def qualifyAndParse_def processParsedZclData_def awaitSteps_def
  callLaterPromises_def promisesStep1_def promisesStep2_def promisesStep3_def pushIf_def
  processAtomics_def processClusters_def processStructs_def processDomains_def
  insertPrepared_def atOnce_def afterwards_def rejections_def waiting_def
  prepareAtomic_def prepareDomain_def prepareStruct_def structItem_def structItemRow_def
  prepareCluster_def clusterHeader_def prepareClusterGlobalAttribute_def
  processClusterGlobalAttributes_def whenPresent_def
  bindE_def dollar_def first_of_def
  ex_file_loader_def ex_parsed_def ex_configurator_def ex_domain_def ex_codeless_def
  ex_atomic_def ex_struct_def ex_env_def ex_env_busy_def

text \<open>The promise of \<^verbatim>\<open>processParsedZclData\<close> is left unsettled by the end of the
  process exactly when the first array has a promise that is settled later and none that
  is rejected at once, and a promise of the second array is rejected at once or while the
  first array is awaited.\<close>

lemma awaitSteps_ends_iff:
  "fst (awaitSteps step1 step2 step3) = ProcessEnds e \<longleftrightarrow>
     waiting step1 \<noteq> [] \<and> atOnce step1 = [] \<and>
     (\<exists>es. atOnce (map fst step2) @ afterwards (map fst (filter snd step2)) = e # es)"
  by (simp add: awaitSteps_def split: list.splits)

lemma callLaterPromises_ends_not:
  "fst (callLaterPromises cs) \<noteq> ProcessEnds e"
  by (simp add: callLaterPromises_def split: prod.splits option.splits list.splits)

text \<open>The promise of \<^verbatim>\<open>loadIndividualSilabsFile\<close> is never rejected: it is resolved
  with a result object, unless the process ends before it is settled.\<close>

lemma loadIndividualSilabsFile_is_not_rejected:
  "fst (loadIndividualSilabsFile l env filePath bv) \<noteq> RejectedWith e"
  by (simp add: loadIndividualSilabsFile_def
      split: sum.splits prod.splits awaited.splits)

text \<open>The process ends only in \<^verbatim>\<open>processParsedZclData\<close>, and only for a file that has a
  domain.\<close>

lemma loadIndividualSilabsFile_ends_iff:
  "fst (loadIndividualSilabsFile l env filePath bv) = ProcessEnds e \<longleftrightarrow>
     (\<exists>pkgId result.
        qualifyAndParse l filePath bv = Inr (pkgId, result) \<and>
        fst (processParsedZclData env result) = ProcessEnds e)"
proof -
  have never_ends: "callLaterPromises cs \<noteq> (ProcessEnds e', left)" for cs e' left
    using callLaterPromises_ends_not [of cs e'] by auto
  show ?thesis
    by (auto simp: loadIndividualSilabsFile_def never_ends
        split: sum.splits prod.splits awaited.splits)
qed

lemma processParsedZclData_ends_iff:
  "fst (processParsedZclData env result) = ProcessEnds e \<longleftrightarrow>
     (\<exists>c. result = Some (Configurator c) \<and> cf_domain c \<noteq> None \<and>
        waiting (promisesStep1 env c) \<noteq> [] \<and> atOnce (promisesStep1 env c) = [] \<and>
        (\<exists>es. atOnce (map fst (promisesStep2 env c)) @
                afterwards (map fst (filter snd (promisesStep2 env c))) = e # es))"
proof (cases result)
  case None
  then show ?thesis by (simp add: processParsedZclData_def)
next
  case (Some d)
  then show ?thesis
    by (cases d)
      (auto simp: processParsedZclData_def awaitSteps_ends_iff promisesStep1_def pushIf_def
        waiting_def split: option.splits)
qed

text \<open>The example files on which the function gives a result object: a file that cannot
  be read, a file whose validation fails, a file with a struct, the cluster without a code
  in a file of its own, where the \<^verbatim>\<open>TypeError\<close> of its preparer is caught, the empty
  \<^verbatim>\<open>configurator\<close>, and the file with an atomic type and a domain on a store that
  resolves every insertion.\<close>

lemma loadIndividualSilabsFile_results:
  "loadIndividualSilabsFile ex_file_loader ex_env ''missing.xml'' None =
     (Fulfilled (NotSucceeded (Rejected ''ENOENT'')), [])"
  "loadIndividualSilabsFile ex_file_loader ex_env ''protocol.xml''
       (Some (\<lambda>c. Inr (Some (Validation (Some False))))) =
     (Fulfilled (NotSucceeded (Thrown ''Validation Failed'')), [])"
  "loadIndividualSilabsFile ex_file_loader ex_env ''protocol.xml'' None =
     (Fulfilled (Succeeded (Some 3)), [])"
  "loadIndividualSilabsFile ex_file_loader ex_env ''cluster.xml'' None =
     (Fulfilled (NotSucceeded TypeError), [])"
  "loadIndividualSilabsFile ex_file_loader ex_env ''empty.xml'' None =
     (Fulfilled (NotSucceeded TypeError), [])"
  "loadIndividualSilabsFile ex_file_loader ex_env ''types.xml'' None =
     (Fulfilled (Succeeded (Some 3)), [])"
  by (simp_all add: single_file_simps)

text \<open>
  C2. The claim has \<^verbatim>\<open>loadIndividualSilabsFile\<close> return a result object on every run,
  store errors included. It does not on these two runs, in which the process ends while
  \<^verbatim>\<open>processParsedZclData\<close> awaits the insertion of the domain and nothing is returned:
  on \<^verbatim>\<open>dimmer.xml\<close> the preparer of the cluster throws a \<^verbatim>\<open>TypeError\<close>, which rejects
  the promise of \<^verbatim>\<open>processClusters\<close> at once; on \<^verbatim>\<open>types.xml\<close> the store rejects the
  insertion of the atomic types. Both promises stand in \<^verbatim>\<open>promisesStep2\<close>, which has no
  handler before \<^verbatim>\<open>promisesStep1\<close> is through.
\<close>

theorem unhandled_rejection_ends_the_load:
  "loadIndividualSilabsFile ex_file_loader ex_env ''dimmer.xml'' None =
     (ProcessEnds TypeError, []) \<and>
   loadIndividualSilabsFile ex_file_loader ex_env_busy ''types.xml'' None =
     (ProcessEnds (Rejected ''SQLITE_BUSY''), [])"
  by (simp add: single_file_simps)

subsection \<open>Loading from a manifest\<close>







text \<open>Outside the \<^verbatim>\<open>try\<close>: when the transaction cannot be begun, the caller gets that
  exception and no commit is called; and when the process ends in the body, no commit is
  called either.\<close>

lemma begin_rejected_skips_the_commit:
  "dbBeginTransaction db = RejectedWith err \<Longrightarrow>
     loadSilabsZcl l metafile isJson db = (RejectedWith err, db, False)"
  by (simp add: loadSilabsZcl_def)

lemma process_end_skips_the_commit:
  "dbBeginTransaction db = Fulfilled db0 \<Longrightarrow>
   loadSilabsZclBody l metafile isJson db0 = (ProcessEnds err, db') \<Longrightarrow>
     loadSilabsZcl l metafile isJson db = (ProcessEnds err, db', False)"
  by (simp add: loadSilabsZcl_def)




subsection \<open>The phases of a load\<close>

lemma phase_cases: "phase ins = 1 \<or> phase ins = 2 \<or> phase ins = 3"
  by (cases ins) simp_all

lemma phase_1_iff: "phase ins = Suc 0 \<longleftrightarrow> ins = InsertSpecs \<or> ins = InsertDomains"
  by (cases ins) simp_all

lemma phase_immediate: "ins \<in> set (immediate f) \<Longrightarrow> phase ins \<noteq> 3"
  by (auto simp: immediate_def present_def split: if_splits)

lemma phase_later: "ins \<in> set (later f) \<Longrightarrow> phase ins = 3"
  by (auto simp: later_def present_def split: if_splits)

lemma laterCalls_Resolved:
  "(i, ins) \<in> set (laterCalls files is) \<Longrightarrow> \<exists>ls. files i = Resolved ls \<and> ins \<in> set ls"
proof (induction "is")
  case Nil
  then show ?case by simp
next
  case (Cons j js)
  show ?case
  proof (cases "files j")
    case (Resolved ls)
    with Cons show ?thesis by auto
  qed (use Cons in simp_all)
qed

lemma laterCalls_phase:
  "inv_resolved s \<Longrightarrow> c \<in> set (laterCalls (ls_files s) is) \<Longrightarrow> phase (snd c) = 3"
  using laterCalls_Resolved [of "fst c" "snd c" "ls_files s" "is"]
  by (auto simp: inv_resolved_def)

lemma settled_iff: "settled st \<longleftrightarrow> st = Caught \<or> (\<exists>ls. st = Resolved ls)"
  by (cases st) (simp_all add: settled_def)

lemma pres_nolater:
  assumes "inv_nolater s" and "step fs a s = Some s'"
  shows "inv_nolater s'"
proof (cases a)
  case (Enter i)
  with assms show ?thesis
    by (auto simp: inv_nolater_def phase_immediate split: if_splits)
next
  case (Resolves i ins)
  with assms show ?thesis
    by (auto simp: inv_nolater_def split: if_splits)
qed (use assms in \<open>auto simp: inv_nolater_def split: if_splits\<close>)

lemma pres_settled:
  assumes "inv_settled fs s" and "step fs a s = Some s'"
  shows "inv_settled fs s'"
  using assms
  by (cases a) (auto simp: inv_settled_def settled_iff split: if_splits)

lemma Call_in_calls:
  "Call i ins \<in> set (map (\<lambda>c. Call (fst c) (snd c)) cs) \<longleftrightarrow> (i, ins) \<in> set cs"
  by force

lemma Done_in_calls: "Done i ins \<notin> set (map (\<lambda>c. Call (fst c) (snd c)) cs)"
  by auto

lemma step_CallLater:
  assumes "step fs CallLater s = Some s'"
  shows "\<not> ls_later s" and "\<forall>i < length fs. settled (ls_files s i)"
    and "ls_files s' = ls_files s" and "ls_rejected s' = ls_rejected s" and "ls_later s'"
    and "ls_pending s' = ls_pending s \<union> set (laterCalls (ls_files s) [0 ..< length fs])"
    and "ls_trace s' =
           ls_trace s @ map (\<lambda>c. Call (fst c) (snd c)) (laterCalls (ls_files s) [0 ..< length fs])"
  using assms by (auto split: if_splits)

lemma pres_accounted:
  assumes "inv_accounted s" and "step fs a s = Some s'"
  shows "inv_accounted s'"
proof (cases a)
  case CallLater
  with assms(2) have st: "step fs CallLater s = Some s'" by simp
  show ?thesis
    unfolding inv_accounted_def step_CallLater(4,6,7) [OF st]
    using assms(1) by (auto simp: inv_accounted_def Call_in_calls)
qed (use assms in \<open>(clarsimp simp: inv_accounted_def split: if_splits; blast)+\<close>)

lemma pres_resolved:
  assumes "inv_resolved s" and "step fs a s = Some s'"
  shows "inv_resolved s'"
  using assms unfolding inv_resolved_def
  by (cases a) (clarsimp simp: phase_later split: if_splits; blast)+

lemma pres_step2:
  assumes "inv_step2 fs s" and "inv_resolved s" and "step fs a s = Some s'"
  shows "inv_step2 fs s'"
proof (cases a)
  case CallLater
  with assms(3) have st: "step fs CallLater s = Some s'" by simp
  show ?thesis
    unfolding inv_step2_def step_CallLater(4,6) [OF st]
    using assms(1) laterCalls_phase [OF assms(2)]
    by (fastforce simp: inv_step2_def)
qed (use assms(1,3) in \<open>(clarsimp simp: inv_step2_def split: if_splits; blast)+\<close>)

lemma pres_step1:
  assumes "inv_step1 s" and "inv_resolved s" and "step fs a s = Some s'"
  shows "inv_step1 s'"
proof (cases a)
  case CallLater
  with assms(3) have st: "step fs CallLater s = Some s'" by simp
  show ?thesis
    unfolding inv_step1_def step_CallLater(3,4,6) [OF st]
    using assms(1) laterCalls_phase [OF assms(2)]
    by (fastforce simp: inv_step1_def)
next
  case (Step1Settled i)
  with assms(1,3) show ?thesis
    by (clarsimp simp: inv_step1_def phase_1_iff split: if_splits)
qed (use assms(1,3) in \<open>(clarsimp simp: inv_step1_def split: if_splits; blast)+\<close>)

lemma pres_open:
  assumes "inv_open fs s" and "inv_step1 s" and "inv_step2 fs s" and "inv_resolved s"
    and "step fs a s = Some s'"
  shows "inv_open fs s'"
proof (cases a)
  case CallLater
  with assms(5) have st: "step fs CallLater s = Some s'" by simp
  show ?thesis
    unfolding inv_open_def step_CallLater(3,4,6) [OF st]
    using assms(1) laterCalls_phase [OF assms(4)]
    by (fastforce simp: inv_open_def)
next
  case (Step2Settled i)
  show ?thesis
    unfolding inv_open_def
  proof (intro allI impI)
    fix j ins
    assume mem: "(j, ins) \<in> ls_pending s' \<union> ls_rejected s'" and ph: "phase ins \<noteq> 3"
    from assms(5) Step2Settled have same: "ls_pending s' = ls_pending s"
      "ls_rejected s' = ls_rejected s"
      by (auto split: if_splits)
    from mem same assms(1) ph have old: "j < length fs"
      "ls_files s j \<in> {AwaitStep1, AwaitStep2, RejectedFile}"
      by (auto simp: inv_open_def)
    show "j < length fs \<and> ls_files s' j \<in> {AwaitStep1, AwaitStep2, RejectedFile}"
    proof (cases "j = i")
      case False
      with assms(5) Step2Settled have "ls_files s' j = ls_files s j"
        by (auto split: if_splits)
      with old show ?thesis by simp
    next
      case True
      from assms(5) Step2Settled have i: "ls_files s i = AwaitStep2"
        by (auto split: if_splits)
      have "phase ins = 2"
        using phase_cases [of ins] ph assms(2) i mem same True
        by (auto simp: inv_step1_def)
      with assms(3) mem same True have imm: "ins \<in> set (immediate (fs ! i))"
        by (auto simp: inv_step2_def)
      have "ls_files s' i = RejectedFile"
      proof (rule ccontr)
        assume "ls_files s' i \<noteq> RejectedFile"
        with assms(5) Step2Settled have
          "\<not> (\<exists>ins \<in> set (immediate (fs ! i)). phase ins = 2 \<and> (i, ins) \<in> ls_rejected s)"
          "\<forall>ins \<in> set (immediate (fs ! i)). phase ins = 2 \<longrightarrow> (i, ins) \<notin> ls_pending s"
          by (auto split: if_splits)
        with imm \<open>phase ins = 2\<close> mem same True show False by auto
      qed
      with old True show ?thesis by simp
    qed
  qed
next
  case (Enter i)
  with assms(1,5) show ?thesis
    by (clarsimp simp: inv_open_def split: if_splits)
next
  case (Skip i)
  with assms(1,5) show ?thesis
    by (fastforce simp: inv_open_def split: if_splits)
next
  case (ReadFails i)
  with assms(1,5) show ?thesis
    by (fastforce simp: inv_open_def split: if_splits)
next
  case (Resolves i ins)
  with assms(1,5) show ?thesis
    by (fastforce simp: inv_open_def split: if_splits)
next
  case (Rejects i ins)
  with assms(1,5) show ?thesis
    by (fastforce simp: inv_open_def split: if_splits)
next
  case (Step1Settled i)
  with assms(1,5) show ?thesis
    by (fastforce simp: inv_open_def split: if_splits)
qed

lemma below3_no_later_call:
  assumes "\<forall>i ins. Call i ins \<in> set tr \<longrightarrow> phase ins \<noteq> 3"
  shows "below3 tr"
  unfolding below3_def using assms by (metis nth_mem)

lemma below3_append_no_call:
  assumes "below3 tr" and "\<forall>e \<in> set new. \<forall>i ins. e \<noteq> Call i ins"
  shows "below3 (tr @ new)"
  unfolding below3_def
proof (intro allI impI)
  fix k i ins j g ins'
  assume k: "k < length (tr @ new)" "(tr @ new) ! k = Call i ins" "phase ins = 3"
    and j: "j < length (tr @ new)" "(tr @ new) ! j = Call g ins'" "phase ins' \<noteq> 3"
  have in_tr: "m < length tr" if "m < length (tr @ new)" "(tr @ new) ! m = Call h x" for m h x
  proof (rule ccontr)
    assume "\<not> m < length tr"
    with that have "new ! (m - length tr) = Call h x" "m - length tr < length new"
      by (auto simp: nth_append)
    with assms(2) show False by (metis nth_mem)
  qed
  from in_tr [OF k(1,2)] in_tr [OF j(1,2)] have kj: "k < length tr" "j < length tr" .
  with k j have "tr ! k = Call i ins" "tr ! j = Call g ins'"
    by (simp_all add: nth_append)
  with assms(1) kj k(3) j(3) have "j < k \<and> Done g ins' \<in> set (take k tr)"
    unfolding below3_def by blast
  with kj show "j < k \<and> Done g ins' \<in> set (take k (tr @ new))"
    by simp
qed

lemma below3_append_later_calls:
  assumes "\<forall>i ins. Call i ins \<in> set tr \<longrightarrow> phase ins \<noteq> 3"
    and "\<forall>g ins'. Call g ins' \<in> set tr \<longrightarrow> phase ins' \<noteq> 3 \<longrightarrow> Done g ins' \<in> set tr"
    and "\<forall>e \<in> set new. \<exists>i ins. e = Call i ins \<and> phase ins = 3"
  shows "below3 (tr @ new)"
  unfolding below3_def
proof (intro allI impI)
  fix k i ins j g ins'
  assume k: "k < length (tr @ new)" "(tr @ new) ! k = Call i ins" "phase ins = 3"
    and j: "j < length (tr @ new)" "(tr @ new) ! j = Call g ins'" "phase ins' \<noteq> 3"
  have k': "length tr \<le> k"
  proof (rule ccontr)
    assume "\<not> length tr \<le> k"
    with k(2) have "tr ! k = Call i ins" "k < length tr" by (simp_all add: nth_append)
    with assms(1) k(3) show False by (metis nth_mem)
  qed
  have j': "j < length tr"
  proof (rule ccontr)
    assume "\<not> j < length tr"
    with j(1,2) have "new ! (j - length tr) = Call g ins'" "j - length tr < length new"
      by (auto simp: nth_append)
    with assms(3) j(3) show False by (metis event.inject(1) nth_mem)
  qed
  with j(2) have "Call g ins' \<in> set tr" by (metis nth_append nth_mem)
  with assms(2) j(3) have "Done g ins' \<in> set tr" by blast
  with k' j' show "j < k \<and> Done g ins' \<in> set (take k (tr @ new))"
    by simp
qed

lemma later_no_calls:
  assumes "ls_later s" and "inv_settled fs s" and "inv_open fs s"
    and "step fs a s = Some s'"
  shows "\<exists>new. ls_trace s' = ls_trace s @ new \<and> (\<forall>e \<in> set new. \<forall>i ins. e \<noteq> Call i ins)"
proof (cases a)
  case (Resolves i ins)
  with assms(4) have pend: "(i, ins) \<in> ls_pending s" by (auto split: if_splits)
  have "ins \<noteq> InsertSpecs"
  proof
    assume "ins = InsertSpecs"
    with pend assms(3) have "i < length fs"
      "ls_files s i \<in> {AwaitStep1, AwaitStep2, RejectedFile}"
      by (auto simp: inv_open_def)
    with assms(1,2) show False by (auto simp: inv_settled_def settled_def)
  qed
  with assms(4) Resolves show ?thesis by (auto split: if_splits)
next
  case (Enter i)
  with assms show ?thesis
    by (auto simp: inv_settled_def settled_def split: if_splits)
qed (use assms(1,4) in \<open>auto split: if_splits\<close>)

lemma pres_below3:
  assumes "load_inv fs s" and "step fs a s = Some s'"
  shows "below3 (ls_trace s')"
proof (cases "ls_later s")
  case True
  with assms have "\<exists>new. ls_trace s' = ls_trace s @ new \<and> (\<forall>e \<in> set new. \<forall>i ins. e \<noteq> Call i ins)"
    by (intro later_no_calls [of s fs a s']) (simp_all add: load_inv_def)
  with assms(1) show ?thesis
    by (auto simp: load_inv_def intro: below3_append_no_call)
next
  case False
  show ?thesis
  proof (cases "a = CallLater")
    case False
    with assms(2) \<open>\<not> ls_later s\<close> have "\<not> ls_later s'"
      by (cases a) (auto split: if_splits)
    moreover from assms have "inv_nolater s'"
      by (auto simp: load_inv_def intro: pres_nolater)
    ultimately show ?thesis
      by (intro below3_no_later_call) (simp add: inv_nolater_def)
  next
    case True
    with assms(2) have st: "step fs CallLater s = Some s'" by simp
    let ?cs = "laterCalls (ls_files s) [0 ..< length fs]"
    from assms(1) have inv: "inv_nolater s" "inv_accounted s" "inv_open fs s" "inv_resolved s"
      by (simp_all add: load_inv_def)
    have 1: "\<forall>i ins. Call i ins \<in> set (ls_trace s) \<longrightarrow> phase ins \<noteq> 3"
      using inv(1) \<open>\<not> ls_later s\<close> by (simp add: inv_nolater_def)
    have 2: "\<forall>g ins'. Call g ins' \<in> set (ls_trace s) \<longrightarrow> phase ins' \<noteq> 3 \<longrightarrow>
               Done g ins' \<in> set (ls_trace s)"
    proof (intro allI impI)
      fix g ins'
      assume c: "Call g ins' \<in> set (ls_trace s)" and ph: "phase ins' \<noteq> 3"
      show "Done g ins' \<in> set (ls_trace s)"
      proof (rule ccontr)
        assume "Done g ins' \<notin> set (ls_trace s)"
        with c ph inv(2) have "(g, ins') \<in> ls_pending s \<union> ls_rejected s"
          by (auto simp: inv_accounted_def)
        with inv(3) ph have "g < length fs"
          "ls_files s g \<in> {AwaitStep1, AwaitStep2, RejectedFile}"
          by (auto simp: inv_open_def)
        with step_CallLater(2) [OF st] show False
          by (auto simp: settled_def)
      qed
    qed
    have 3: "\<forall>e \<in> set (map (\<lambda>c. Call (fst c) (snd c)) ?cs).
               \<exists>i ins. e = Call i ins \<and> phase ins = 3"
      using laterCalls_phase [OF inv(4)] by auto
    from below3_append_later_calls [OF 1 2 3] show ?thesis
      by (simp add: step_CallLater(7) [OF st])
  qed
qed

lemma pres_load_inv:
  assumes "load_inv fs s" and "step fs a s = Some s'"
  shows "load_inv fs s'"
  unfolding load_inv_def
proof (intro conjI)
  from assms(1) have inv: "inv_nolater s" "inv_settled fs s" "inv_accounted s"
    "inv_open fs s" "inv_step1 s" "inv_step2 fs s" "inv_resolved s"
    by (simp_all add: load_inv_def)
  show "inv_nolater s'" by (rule pres_nolater [OF inv(1) assms(2)])
  show "inv_settled fs s'" by (rule pres_settled [OF inv(2) assms(2)])
  show "inv_accounted s'" by (rule pres_accounted [OF inv(3) assms(2)])
  show "inv_open fs s'" by (rule pres_open [OF inv(4,5,6,7) assms(2)])
  show "inv_step1 s'" by (rule pres_step1 [OF inv(5,7) assms(2)])
  show "inv_step2 fs s'" by (rule pres_step2 [OF inv(6,7) assms(2)])
  show "inv_resolved s'" by (rule pres_resolved [OF inv(7) assms(2)])
  show "below3 (ls_trace s')" by (rule pres_below3 [OF assms])
qed

lemma load_inv_initial: "load_inv fs initial"
  by (simp add: load_inv_def initial_def inv_nolater_def inv_settled_def inv_accounted_def
      inv_open_def inv_step1_def inv_step2_def inv_resolved_def below3_def)

lemma run_load_inv:
  "load_inv fs s \<Longrightarrow> run fs as s = Some s' \<Longrightarrow> load_inv fs s'"
proof (induction as arbitrary: s)
  case Nil
  then show ?case by simp
next
  case (Cons a as)
  from Cons.prems(2) obtain s1 where
    s1: "step fs a s = Some s1" and rest: "run fs as s1 = Some s'"
    by (auto split: option.splits)
  from pres_load_inv [OF Cons.prems(1) s1] have "load_inv fs s1" .
  from Cons.IH [OF this rest] show ?case .
qed

lemma below3_barrier:
  assumes "below3 tr" and "lo \<noteq> 3"
  shows "phase_barrier lo 3 tr"
  unfolding phase_barrier_def
proof (intro allI impI)
  fix k i ins j g ins'
  assume "k < length tr" "tr ! k = Call i ins \<and> phase ins = 3"
    "j < length tr" "tr ! j = Call g ins' \<and> phase ins' = lo"
  with assms show "j < k \<and> Done g ins' \<in> set (take k tr)"
    unfolding below3_def by blast
qed

text \<open>
  C6, as the code has it. In every run of a load, whatever the order in which files are
  read and insertions are settled, and whether they succeed or fail, no insertion of
  phase 3 begins before every insertion of phase 1 and every insertion of phase 2, of
  every file, has completed.
\<close>

theorem later_insertions_wait:
  "run fs as initial = Some s \<longrightarrow>
     phase_barrier 1 3 (ls_trace s) \<and> phase_barrier 2 3 (ls_trace s)"
proof (intro conjI impI)
  assume "run fs as initial = Some s"
  from run_load_inv [OF load_inv_initial this] have b: "below3 (ls_trace s)"
    by (simp add: load_inv_def)
  from below3_barrier [OF b, of 1] show "phase_barrier 1 3 (ls_trace s)" by simp
  from below3_barrier [OF b, of 2] show "phase_barrier 2 3 (ls_trace s)" by simp
qed

text \<open>The claim as it stands also keeps phase 2 behind phase 1. The load of the example
  file calls the insertion of the atomic types, of phase 2, before the insertion of the
  specs, of phase 1, is called at all.\<close>

lemma ex_run: "map_option ls_trace (run [ex_file] ex_actions initial) = Some ex_trace"
  by (simp add: ex_actions_def ex_file_def ex_trace_def initial_def immediate_def later_def
      present_def settled_def)

theorem phase_2_begins_before_phase_1_completes:
  "map_option ls_trace (run [ex_file] ex_actions initial) = Some ex_trace \<and>
   \<not> phase_barrier 1 2 ex_trace"
proof
  show "map_option ls_trace (run [ex_file] ex_actions initial) = Some ex_trace"
    by (rule ex_run)
  show "\<not> phase_barrier 1 2 ex_trace"
  proof
    assume "phase_barrier 1 2 ex_trace"
    then have "0 < length ex_trace \<longrightarrow>
        ex_trace ! 0 = Call 0 InsertAtomics \<and> phase InsertAtomics = 2 \<longrightarrow>
        2 < length ex_trace \<longrightarrow>
        ex_trace ! 2 = Call 0 InsertSpecs \<and> phase InsertSpecs = 1 \<longrightarrow>
        2 < (0::nat) \<and> Done 0 InsertSpecs \<in> set (take 0 ex_trace)"
      unfolding phase_barrier_def by blast
    then show False by (simp add: ex_trace_def)
  qed
qed

theorem later_insertions_wait_witness:
  "map_option ls_trace (run [ex_file] ex_actions initial) = Some ex_trace \<and>
   phase_barrier 1 3 ex_trace \<and> phase_barrier 2 3 ex_trace"
proof -
  from ex_run obtain s where s: "run [ex_file] ex_actions initial = Some s"
    and tr: "ls_trace s = ex_trace"
    by auto
  from later_insertions_wait [of "[ex_file]" ex_actions s] s
  have "phase_barrier 1 3 (ls_trace s) \<and> phase_barrier 2 3 (ls_trace s)"
    by blast
  with tr show ?thesis
    by (simp only: ex_run simp_thms)
qed

end
